theory Spec2Isabelle
  imports Main "HOL-Library.Word"
begin

unbundle bit_operations_syntax

section \<open>Link resolution of the HotSpot interpreter (linkResolver.cpp)\<close>

text \<open>
  A shallow embedding of \<^verbatim>\<open>hotspot/src/share/vm/interpreter/linkResolver.cpp\<close>:
  the implementation of \<^verbatim>\<open>CallInfo\<close>, method and field resolution, and the resolution of
  static, special, virtual, interface, handle and dynamic calls. Each function is a HOL
  function of the same name. The wrappers that read a call's class, name and descriptor
  from the constant pool (\<^verbatim>\<open>resolve_invoke\<close> and the like) and those that turn an
  exception into a null result (\<^verbatim>\<open>..._or_null\<close>) are left out. A pending Java exception
  is the left summand of the result; reference parameters (\<^verbatim>\<open>methodHandle&\<close>,
  \<^verbatim>\<open>CallInfo&\<close>) are passed in and returned. The embedding is that of a product build:
  \<^verbatim>\<open>assert\<close> and tracing (\<^verbatim>\<open>TraceMethodHandles\<close>) compile to nothing there, and message
  texts are not kept. Handles are not null unless the code tests them.

  The classes the resolver reads (class hierarchy, method tables, vtables, the system
  dictionary, reflection, method handles) are not part of the file. Their operations
  are the fields of the record \<open>VM\<close>, so every statement below holds for any
  behaviour of them, unless it names a contract of theirs as a hypothesis.
\<close>

subsection \<open>Data\<close>

type_synonym symbol = string
type_synonym klassOop = nat
type_synonym oop = nat
type_synonym Handle = "oop option"
type_synonym jint = "32 word"
type_synonym BasicType = nat

text \<open>The intrinsic identifiers that the resolver names; all others are \<open>other_intrinsic\<close>.\<close>

datatype vmIntrinsics = vmIntrinsics_none | vmIntrinsics_invokeGeneric
  | vmIntrinsics_invokeBasic | other_intrinsic nat

record methodOopDesc =
  name :: symbol
  signature :: symbol
  method_holder :: klassOop
  access_flags :: jint
  vtable_index :: int
  intrinsic_id :: vmIntrinsics

type_synonym methodHandle = "methodOopDesc option"

record fieldDescriptor =
  fd_name :: symbol
  fd_access_flags :: jint
  fd_index :: int
  fd_offset :: int
  fd_field_type :: BasicType
  fd_field_holder :: klassOop

record FieldAccessInfo =
  fa_klass :: klassOop
  fa_name :: symbol
  fa_field_index :: int
  fa_field_offset :: int
  fa_field_type :: BasicType
  fa_access_flags :: jint

record CallInfo =
  resolved_klass :: klassOop
  selected_klass :: klassOop
  resolved_method :: methodOopDesc
  selected_method :: methodOopDesc
  ci_vtable_index :: int
  resolved_appendix :: Handle
  resolved_method_type :: Handle

text \<open>
  A Java exception object: the name of its class and its cause. A null dereference in
  the C++ code is not a Java exception; it ends the VM and is the outcome \<open>Crash\<close>.
\<close>

datatype throwable = Throwable (exception_klass: symbol) (exception_cause: "throwable option")

datatype vm_error = Pending throwable | Crash

definition THROW :: "symbol \<Rightarrow> vm_error + 'a" where
  "THROW exception_name = Inl (Pending (Throwable exception_name None))"

definition THROW_CAUSE :: "symbol \<Rightarrow> throwable option \<Rightarrow> vm_error + 'a" where
  "THROW_CAUSE exception_name nested = Inl (Pending (Throwable exception_name nested))"

text \<open>
  The symbols of \<^verbatim>\<open>vmSymbols\<close> that the resolver names: the classes of the exceptions it
  throws, a class it loads, and two method names. \<open>THROW\<close> stands for the macros that
  leave a new exception of the named class pending, \<open>THROW_CAUSE\<close> for those that also
  give it a cause.
\<close>

definition java_lang_InternalError :: symbol where
  "java_lang_InternalError = ''java/lang/InternalError''"
definition java_lang_IllegalAccessError :: symbol where
  "java_lang_IllegalAccessError = ''java/lang/IllegalAccessError''"
definition java_lang_LinkageError :: symbol where
  "java_lang_LinkageError = ''java/lang/LinkageError''"
definition java_lang_IncompatibleClassChangeError :: symbol where
  "java_lang_IncompatibleClassChangeError = ''java/lang/IncompatibleClassChangeError''"
definition java_lang_NoSuchMethodError :: symbol where
  "java_lang_NoSuchMethodError = ''java/lang/NoSuchMethodError''"
definition java_lang_NoSuchFieldError :: symbol where
  "java_lang_NoSuchFieldError = ''java/lang/NoSuchFieldError''"
definition java_lang_AbstractMethodError :: symbol where
  "java_lang_AbstractMethodError = ''java/lang/AbstractMethodError''"
definition java_lang_NullPointerException :: symbol where
  "java_lang_NullPointerException = ''java/lang/NullPointerException''"
definition java_lang_BootstrapMethodError :: symbol where
  "java_lang_BootstrapMethodError = ''java/lang/BootstrapMethodError''"
definition java_lang_invoke_MethodHandleNatives :: symbol where
  "java_lang_invoke_MethodHandleNatives = ''java/lang/invoke/MethodHandleNatives''"
definition clone_name :: symbol where
  "clone_name = ''clone''"
definition object_initializer_name :: symbol where
  "object_initializer_name = ''<init>''"

text \<open>
  Modelled from the spec: the access flags of a member (public, protected, static,
  final, abstract), whose declarations (\<^verbatim>\<open>jvm.h\<close>, \<^verbatim>\<open>accessFlags.hpp\<close>) are not among the
  sources. The flags are the \<^verbatim>\<open>jint\<close> that the resolver manipulates; the masks are those
  of the class file format, and a flag is set when the conjunction with its mask is not
  zero.
\<close>

definition JVM_ACC_PUBLIC :: jint where "JVM_ACC_PUBLIC = 0x0001"
definition JVM_ACC_PROTECTED :: jint where "JVM_ACC_PROTECTED = 0x0004"
definition JVM_ACC_STATIC :: jint where "JVM_ACC_STATIC = 0x0008"
definition JVM_ACC_FINAL :: jint where "JVM_ACC_FINAL = 0x0010"
definition JVM_ACC_ABSTRACT :: jint where "JVM_ACC_ABSTRACT = 0x0400"

definition is_public :: "jint \<Rightarrow> bool" where
  "is_public flags = (flags AND JVM_ACC_PUBLIC \<noteq> 0)"
definition is_protected :: "jint \<Rightarrow> bool" where
  "is_protected flags = (flags AND JVM_ACC_PROTECTED \<noteq> 0)"
definition is_static :: "jint \<Rightarrow> bool" where
  "is_static flags = (flags AND JVM_ACC_STATIC \<noteq> 0)"
definition is_final :: "jint \<Rightarrow> bool" where
  "is_final flags = (flags AND JVM_ACC_FINAL \<noteq> 0)"
definition is_abstract :: "jint \<Rightarrow> bool" where
  "is_abstract flags = (flags AND JVM_ACC_ABSTRACT \<noteq> 0)"

text \<open>The initialization states of \<^verbatim>\<open>instanceKlass::ClassState\<close>, in the order of the enum.\<close>

datatype ClassState = unparsable_by_gc | allocated | loaded | linked | being_initialized
  | fully_initialized | initialization_error

type_synonym init_states = "klassOop \<Rightarrow> ClassState"

fun ClassState_value :: "ClassState \<Rightarrow> nat" where
  "ClassState_value unparsable_by_gc = 0"
| "ClassState_value allocated = 1"
| "ClassState_value loaded = 2"
| "ClassState_value linked = 3"
| "ClassState_value being_initialized = 4"
| "ClassState_value fully_initialized = 5"
| "ClassState_value initialization_error = 6"

definition is_not_initialized :: "init_states \<Rightarrow> klassOop \<Rightarrow> bool" where
  "is_not_initialized init_state k =
     (ClassState_value (init_state k) < ClassState_value being_initialized)"

datatype Bytecodes = Bytecodes_getstatic | Bytecodes_putstatic | Bytecodes_getfield
  | Bytecodes_putfield | Bytecodes_invokevirtual | Bytecodes_invokespecial
  | Bytecodes_invokestatic | Bytecodes_invokeinterface | Bytecodes_invokedynamic
  | Bytecodes_invokehandle

subsection \<open>The rest of the VM, as the resolver calls it\<close>

text \<open>
  \<open>vtable k i\<close> is the entry that \<^verbatim>\<open>start_of_vtable()\<close> of \<open>k\<close> holds at index \<open>i\<close>,
  whatever \<open>i\<close> is: the product build reads it unchecked. \<open>index_of_miranda k n s\<close> is
  what \<^verbatim>\<open>index_of_miranda\<close> of the vtable of \<open>k\<close> returns for the name \<open>n\<close> and the
  descriptor \<open>s\<close>: the search of a vtable slot by name and descriptor. A collaborator that
  takes \<^verbatim>\<open>TRAPS\<close> returns its exception on the left; the handle that the caller then
  receives is the empty one.
\<close>

record VM =
  is_interface :: "klassOop \<Rightarrow> bool"
  oop_is_array :: "klassOop \<Rightarrow> bool"
  klass_is_abstract :: "klassOop \<Rightarrow> bool"
  is_super :: "klassOop \<Rightarrow> bool"
  super :: "klassOop \<Rightarrow> klassOop option"
  is_subtype_of :: "klassOop \<Rightarrow> klassOop \<Rightarrow> bool"
  class_loader :: "klassOop \<Rightarrow> oop option"
  uncached_lookup_method :: "klassOop \<Rightarrow> symbol \<Rightarrow> symbol \<Rightarrow> methodHandle"
  lookup_method_in_all_interfaces :: "klassOop \<Rightarrow> symbol \<Rightarrow> symbol \<Rightarrow> methodHandle"
  find_field :: "klassOop \<Rightarrow> symbol \<Rightarrow> symbol \<Rightarrow> (klassOop \<times> fieldDescriptor) option"
  vtable :: "klassOop \<Rightarrow> int \<Rightarrow> methodHandle"
  index_of_miranda :: "klassOop \<Rightarrow> symbol \<Rightarrow> symbol \<Rightarrow> int"
  should_be_initialized :: "init_states \<Rightarrow> klassOop \<Rightarrow> bool"
  initialize :: "klassOop \<Rightarrow> init_states \<Rightarrow> throwable + init_states"
  Object_klass :: klassOop
  MethodHandle_klass :: klassOop
  MethodHandleNatives_klass :: "klassOop option"
  BootstrapMethodError_klass :: klassOop
  LinkageError_klass :: klassOop
  is_a :: "throwable \<Rightarrow> klassOop \<Rightarrow> bool"
  verify_field_access :: "klassOop \<Rightarrow> klassOop \<Rightarrow> klassOop \<Rightarrow> jint \<Rightarrow> bool \<Rightarrow> bool"
  signature_type_names :: "symbol \<Rightarrow> bool \<Rightarrow> symbol list"
  loader_type :: "oop option \<Rightarrow> symbol \<Rightarrow> klassOop option"
  resolve_or_fail :: "symbol \<Rightarrow> throwable option"
  find_method_handle_intrinsic :: "vmIntrinsics \<Rightarrow> symbol \<Rightarrow> throwable + methodHandle"
  find_method_handle_invoker ::
    "symbol \<Rightarrow> symbol \<Rightarrow> klassOop \<Rightarrow> throwable + (methodHandle \<times> Handle \<times> Handle)"
  find_dynamic_call_site_invoker ::
    "klassOop \<Rightarrow> Handle \<Rightarrow> symbol \<Rightarrow> symbol \<Rightarrow> throwable + (methodHandle \<times> Handle \<times> Handle)"
  signature_polymorphic_name_id :: "symbol \<Rightarrow> vmIntrinsics"
  is_signature_polymorphic :: "vmIntrinsics \<Rightarrow> bool"
  is_signature_polymorphic_intrinsic :: "vmIntrinsics \<Rightarrow> bool"
  is_signature_polymorphic_static :: "vmIntrinsics \<Rightarrow> bool"
  lookup_basic_type_signature :: "symbol \<Rightarrow> bool \<Rightarrow> throwable + symbol"
  MethodHandles_enabled :: bool
  EnableInvokeDynamic :: bool
  AllowNonVirtualCalls :: bool
  is_Compiler_thread :: bool
  must_be_compiled :: "methodOopDesc \<Rightarrow> bool"
  compile_method :: "methodOopDesc \<Rightarrow> throwable option"
  nonvirtual_vtable_index :: int
  invalid_vtable_index :: int

subsection \<open>Implementation of CallInfo\<close>

definition set_common ::
  "VM \<Rightarrow> init_states \<Rightarrow> CallInfo \<Rightarrow> klassOop \<Rightarrow> klassOop \<Rightarrow> methodOopDesc \<Rightarrow> methodOopDesc
     \<Rightarrow> int \<Rightarrow> vm_error + CallInfo" where
  "set_common vm init_state result resolved_klass' selected_klass' resolved_method'
       selected_method' vtable_index' =
     (let result = result\<lparr>resolved_klass := resolved_klass',
                           selected_klass := selected_klass',
                           resolved_method := resolved_method',
                           selected_method := selected_method',
                           ci_vtable_index := vtable_index',
                           resolved_appendix := None\<rparr>
      in if must_be_compiled vm selected_method' then
           if is_Compiler_thread vm then Inr result
           else if is_not_initialized init_state (method_holder selected_method') then Inr result
           else (case compile_method vm selected_method' of
                   Some e \<Rightarrow> Inl (Pending e)
                 | None \<Rightarrow> Inr result)
         else Inr result)"

definition set_static ::
  "VM \<Rightarrow> init_states \<Rightarrow> CallInfo \<Rightarrow> klassOop \<Rightarrow> methodOopDesc \<Rightarrow> vm_error + CallInfo" where
  "set_static vm init_state result resolved_klass' resolved_method' =
     (let vtable_index' = nonvirtual_vtable_index vm
      in set_common vm init_state result resolved_klass' resolved_klass' resolved_method'
           resolved_method' vtable_index')"

definition set_interface ::
  "VM \<Rightarrow> init_states \<Rightarrow> CallInfo \<Rightarrow> klassOop \<Rightarrow> klassOop \<Rightarrow> methodOopDesc \<Rightarrow> methodOopDesc
     \<Rightarrow> vm_error + CallInfo" where
  "set_interface vm init_state result resolved_klass' selected_klass' resolved_method'
       selected_method' =
     (let vtable_index' =
            (if method_holder resolved_method' = Object_klass vm
             then vtable_index resolved_method'
             else invalid_vtable_index vm)
      in set_common vm init_state result resolved_klass' selected_klass' resolved_method'
           selected_method' vtable_index')"

definition set_virtual ::
  "VM \<Rightarrow> init_states \<Rightarrow> CallInfo \<Rightarrow> klassOop \<Rightarrow> klassOop \<Rightarrow> methodOopDesc \<Rightarrow> methodOopDesc
     \<Rightarrow> int \<Rightarrow> vm_error + CallInfo" where
  "set_virtual vm init_state result resolved_klass' selected_klass' resolved_method'
       selected_method' vtable_index' =
     set_common vm init_state result resolved_klass' selected_klass' resolved_method'
       selected_method' vtable_index'"

definition set_handle ::
  "VM \<Rightarrow> init_states \<Rightarrow> CallInfo \<Rightarrow> methodHandle \<Rightarrow> Handle \<Rightarrow> Handle \<Rightarrow> vm_error + CallInfo" where
  "set_handle vm init_state result resolved_method' resolved_appendix' resolved_method_type' =
     (case resolved_method' of
        None \<Rightarrow> THROW java_lang_InternalError
      | Some m \<Rightarrow>
          (let resolved_klass' = MethodHandle_klass vm;
               vtable_index' = nonvirtual_vtable_index vm
           in case set_common vm init_state result resolved_klass' resolved_klass' m m
                     vtable_index' of
                Inl e \<Rightarrow> Inl e
              | Inr result \<Rightarrow>
                  Inr (result\<lparr>resolved_appendix := resolved_appendix',
                              resolved_method_type := resolved_method_type'\<rparr>)))"

subsection \<open>Method resolution\<close>

text \<open>
  \<open>lookup_method_in_klasses\<close> writes its reference parameter \<open>result\<close> on every path but
  one: a signature-polymorphic method is not linked to, and \<open>result\<close> keeps the value
  that the caller passed.
\<close>

definition lookup_method_in_klasses ::
  "VM \<Rightarrow> methodHandle \<Rightarrow> klassOop \<Rightarrow> symbol \<Rightarrow> symbol \<Rightarrow> methodHandle" where
  "lookup_method_in_klasses vm result klass name' signature' =
     (let result_oop = uncached_lookup_method vm klass name' signature'
      in if oop_is_array vm klass then result_oop
         else (case result_oop of
                 None \<Rightarrow> result_oop
               | Some m \<Rightarrow>
                   if EnableInvokeDynamic vm \<and> is_signature_polymorphic vm (intrinsic_id m)
                   then result
                   else result_oop))"

text \<open>
  The loop of \<open>lookup_instance_method_in_klasses\<close>: while the method found is static,
  look again from the superclass of its holder. Nothing in the resolver bounds the
  number of rounds, so the loop is a partial function; \<open>None\<close> is a loop that does not
  end. The name and the descriptor looked for travel as a pair. A holder without
  superclass makes the C++ code call through a null klass.
\<close>

partial_function (option) lookup_instance_method_loop ::
  "VM \<Rightarrow> symbol \<times> symbol \<Rightarrow> methodHandle \<Rightarrow> (vm_error + methodHandle) option" where
  "lookup_instance_method_loop vm name_and_signature result =
     (case result of
        None \<Rightarrow> Some (Inr None)
      | Some m \<Rightarrow>
          if is_static (access_flags m) then
            (case super vm (method_holder m) of
               None \<Rightarrow> Some (Inl Crash)
             | Some super_klass \<Rightarrow>
                 lookup_instance_method_loop vm name_and_signature
                   (uncached_lookup_method vm super_klass (fst name_and_signature)
                      (snd name_and_signature)))
          else Some (Inr (Some m)))"

definition lookup_instance_method_in_klasses ::
  "VM \<Rightarrow> klassOop \<Rightarrow> symbol \<Rightarrow> symbol \<Rightarrow> (vm_error + methodHandle) option" where
  "lookup_instance_method_in_klasses vm klass name' signature' =
     lookup_instance_method_loop vm (name', signature')
       (uncached_lookup_method vm klass name' signature')"

definition method_at_vtable :: "VM \<Rightarrow> klassOop \<Rightarrow> int \<Rightarrow> methodHandle" where
  "method_at_vtable vm k index = vtable vm k index"

definition vtable_index_of_miranda_method :: "VM \<Rightarrow> klassOop \<Rightarrow> symbol \<Rightarrow> symbol \<Rightarrow> int" where
  "vtable_index_of_miranda_method vm klass name' signature' =
     index_of_miranda vm klass name' signature'"

definition lookup_method_in_interfaces ::
  "VM \<Rightarrow> klassOop \<Rightarrow> symbol \<Rightarrow> symbol \<Rightarrow> methodHandle" where
  "lookup_method_in_interfaces vm klass name' signature' =
     lookup_method_in_all_interfaces vm klass name' signature'"

text \<open>
  \<open>lookup_polymorphic_method\<close> returns the pending exception, if any, and the values of
  its three reference parameters. \<open>appendix_result_or_null\<close> and \<open>method_type_result\<close>
  are pointers: \<open>None\<close> is the null pointer, \<open>Some h\<close> a pointer to a handle that holds \<open>h\<close>.
\<close>

definition lookup_polymorphic_method ::
  "VM \<Rightarrow> init_states \<Rightarrow> methodHandle \<Rightarrow> klassOop \<Rightarrow> symbol \<Rightarrow> symbol \<Rightarrow> klassOop
     \<Rightarrow> Handle option \<Rightarrow> Handle option
     \<Rightarrow> throwable option \<times> methodHandle \<times> Handle option \<times> Handle option" where
  "lookup_polymorphic_method vm init_state result klass name' full_signature current_klass
       appendix_result_or_null method_type_result =
     (let iid = signature_polymorphic_name_id vm name';
          unchanged = (None, result, appendix_result_or_null, method_type_result)
      in if EnableInvokeDynamic vm \<and> klass = MethodHandle_klass vm \<and> iid \<noteq> vmIntrinsics_none
         then
           if is_signature_polymorphic_intrinsic vm iid then
             (let keep_last_arg = is_signature_polymorphic_static vm iid
              in case lookup_basic_type_signature vm full_signature keep_last_arg of
                   Inl e \<Rightarrow> (Some e, result, appendix_result_or_null, method_type_result)
                 | Inr basic_signature \<Rightarrow>
                     (case find_method_handle_intrinsic vm iid basic_signature of
                        Inl e \<Rightarrow> (Some e, None, appendix_result_or_null, method_type_result)
                      | Inr result' \<Rightarrow>
                          (None, result', appendix_result_or_null, method_type_result)))
           else if iid = vmIntrinsics_invokeGeneric \<and> \<not> is_Compiler_thread vm
                   \<and> appendix_result_or_null \<noteq> None then
             (let booted =
                    (if \<not> MethodHandles_enabled vm then
                       (case MethodHandleNatives_klass vm of
                          None \<Rightarrow> resolve_or_fail vm java_lang_invoke_MethodHandleNatives
                        | Some natives \<Rightarrow>
                            if is_not_initialized init_state natives
                            then resolve_or_fail vm java_lang_invoke_MethodHandleNatives
                            else None)
                     else None)
              in case booted of
                   Some e \<Rightarrow> (Some e, result, appendix_result_or_null, method_type_result)
                 | None \<Rightarrow>
                     (case find_method_handle_invoker vm name' full_signature current_klass of
                        Inl e \<Rightarrow> (Some e, None, appendix_result_or_null, method_type_result)
                      | Inr (result', appendix, method_type) \<Rightarrow>
                          (case result' of
                             None \<Rightarrow>
                               (None, None, appendix_result_or_null, method_type_result)
                           | Some m \<Rightarrow> (None, Some m, Some appendix, Some method_type))))
           else unchanged
         else unchanged)"

text \<open>
  \<^verbatim>\<open>flags.set_flags(new_flags)\<close> is an assignment here. The class \<^verbatim>\<open>AccessFlags\<close> is not
  among the sources; if its \<^verbatim>\<open>set_flags\<close> keeps only the bits that a class file can
  write, the flags passed on differ from these in the bits above them, which
  \<open>is_public\<close> and \<open>is_protected\<close> do not read.
\<close>

definition check_method_accessability ::
  "VM \<Rightarrow> klassOop \<Rightarrow> klassOop \<Rightarrow> klassOop \<Rightarrow> methodOopDesc \<Rightarrow> vm_error + unit" where
  "check_method_accessability vm ref_klass resolved_klass' sel_klass sel_method =
     (let flags = access_flags sel_method;
          flags =
            (if name sel_method = clone_name \<and> sel_klass = Object_klass vm
                \<and> oop_is_array vm resolved_klass'
             then (let new_flags = flags;
                       new_flags = new_flags AND (NOT JVM_ACC_PROTECTED);
                       new_flags = new_flags OR JVM_ACC_PUBLIC
                   in new_flags)
             else flags)
      in if \<not> verify_field_access vm ref_klass resolved_klass' sel_klass flags True
         then THROW java_lang_IllegalAccessError
         else Inr ())"

text \<open>
  Modelled from the spec: the test that \<^verbatim>\<open>SystemDictionary::check_signature_loaders\<close>,
  whose file is not among the sources, makes for one type name. Resolving the name
  through the two loaders yields two different types. The type that a loader has for
  a name (\<open>loader_type\<close>) is the system dictionary's.
\<close>

definition different_types :: "VM \<Rightarrow> oop option \<Rightarrow> oop option \<Rightarrow> symbol \<Rightarrow> bool" where
  "different_types vm loader1 loader2 type_name =
     (case loader_type vm loader1 type_name of
        None \<Rightarrow> False
      | Some t1 \<Rightarrow>
          (case loader_type vm loader2 type_name of
             None \<Rightarrow> False
           | Some t2 \<Rightarrow> t1 \<noteq> t2))"

text \<open>
  Modelled from the spec: \<^verbatim>\<open>SystemDictionary::check_signature_loaders\<close>, whose file is
  not among the sources. The test is made for every type name occurring in the
  descriptor; the first name that fails it is returned, and \<open>None\<close> when there is
  none. The type names of a descriptor (\<open>signature_type_names\<close>) are the system
  dictionary's.
\<close>

definition check_signature_loaders ::
  "VM \<Rightarrow> symbol \<Rightarrow> oop option \<Rightarrow> oop option \<Rightarrow> bool \<Rightarrow> symbol option" where
  "check_signature_loaders vm signature' loader1 loader2 is_method =
     find (different_types vm loader1 loader2) (signature_type_names vm signature' is_method)"

definition check_method_loader_constraints ::
  "VM \<Rightarrow> methodOopDesc \<Rightarrow> klassOop \<Rightarrow> symbol \<Rightarrow> symbol \<Rightarrow> klassOop \<Rightarrow> vm_error + unit" where
  "check_method_loader_constraints vm resolved_method' resolved_klass' method_name
       method_signature current_klass =
     (let loader = class_loader vm current_klass;
          class_loader' = class_loader vm (method_holder resolved_method')
      in case check_signature_loaders vm method_signature loader class_loader' True of
           Some failed_type_name \<Rightarrow> THROW java_lang_LinkageError
         | None \<Rightarrow> Inr ())"

text \<open>
  \<open>resolve_method\<close> takes the value that its reference parameter \<open>resolved_method\<close> has
  at the call (the empty handle, but for the second resolution of a static call) and
  returns the method it leaves there.
\<close>

definition resolve_method ::
  "VM \<Rightarrow> init_states \<Rightarrow> methodHandle \<Rightarrow> klassOop \<Rightarrow> symbol \<Rightarrow> symbol \<Rightarrow> klassOop \<Rightarrow> bool
     \<Rightarrow> vm_error + methodOopDesc" where
  "resolve_method vm init_state resolved_method' resolved_klass' method_name method_signature
       current_klass check_access =
     (if is_interface vm resolved_klass' then THROW java_lang_IncompatibleClassChangeError
      else
        (let resolved_method' =
               lookup_method_in_klasses vm resolved_method' resolved_klass' method_name
                 method_signature;
             (nested_exception, resolved_method') =
               (if resolved_method' = None \<and> \<not> oop_is_array vm resolved_klass' then
                  (let resolved_method' =
                         lookup_method_in_interfaces vm resolved_klass' method_name
                           method_signature
                   in if resolved_method' = None then
                        (case lookup_polymorphic_method vm init_state resolved_method'
                                resolved_klass' method_name method_signature current_klass
                                None None of
                           (pending, resolved_method', appendix, method_type) \<Rightarrow>
                             (pending, resolved_method'))
                      else (None, resolved_method'))
                else (None, resolved_method'))
         in case resolved_method' of
              None \<Rightarrow> THROW_CAUSE java_lang_NoSuchMethodError nested_exception
            | Some m \<Rightarrow>
                if is_abstract (access_flags m) \<and> \<not> klass_is_abstract vm resolved_klass'
                then THROW java_lang_AbstractMethodError
                else if check_access then
                  (case check_method_accessability vm current_klass resolved_klass'
                          (method_holder m) m of
                     Inl e \<Rightarrow> Inl e
                   | Inr u \<Rightarrow>
                       (case check_method_loader_constraints vm m resolved_klass' method_name
                               method_signature current_klass of
                          Inl e \<Rightarrow> Inl e
                        | Inr u \<Rightarrow> Inr m))
                else Inr m))"

definition resolve_interface_method ::
  "VM \<Rightarrow> klassOop \<Rightarrow> symbol \<Rightarrow> symbol \<Rightarrow> klassOop \<Rightarrow> bool
     \<Rightarrow> (vm_error + methodOopDesc) option" where
  "resolve_interface_method vm resolved_klass' method_name method_signature current_klass
       check_access =
     (if \<not> is_interface vm resolved_klass'
      then Some (THROW java_lang_IncompatibleClassChangeError)
      else
        (case lookup_instance_method_in_klasses vm resolved_klass' method_name
                method_signature of
           None \<Rightarrow> None
         | Some (Inl e) \<Rightarrow> Some (Inl e)
         | Some (Inr resolved_method') \<Rightarrow>
             (let resolved_method' =
                    (if resolved_method' = None \<and> \<not> oop_is_array vm resolved_klass'
                     then lookup_method_in_interfaces vm resolved_klass' method_name
                            method_signature
                     else resolved_method')
              in case resolved_method' of
                   None \<Rightarrow> Some (THROW java_lang_NoSuchMethodError)
                 | Some m \<Rightarrow>
                     if check_access then
                       (case check_method_loader_constraints vm m resolved_klass' method_name
                               method_signature current_klass of
                          Inl e \<Rightarrow> Some (Inl e)
                        | Inr u \<Rightarrow> Some (Inr m))
                     else Some (Inr m))))"

subsection \<open>Field resolution\<close>

text \<open>
  The constant pool entry that a field instruction refers to. \<open>klass_ref_at\<close> resolves the
  class of the entry or throws; \<open>klass_ref_at_if_loaded_check\<close> may also return null.
\<close>

record constantPool =
  klass_ref_at :: "int \<Rightarrow> throwable + klassOop option"
  klass_ref_at_if_loaded_check :: "int \<Rightarrow> throwable + klassOop option"
  name_ref_at :: "int \<Rightarrow> symbol"
  signature_ref_at :: "int \<Rightarrow> symbol"
  pool_holder :: klassOop

definition FieldAccessInfo_set ::
  "FieldAccessInfo \<Rightarrow> klassOop \<Rightarrow> symbol \<Rightarrow> int \<Rightarrow> int \<Rightarrow> BasicType \<Rightarrow> jint \<Rightarrow> FieldAccessInfo"
  where
  "FieldAccessInfo_set info klass name' field_index field_offset field_type access_flags' =
     info\<lparr>fa_klass := klass, fa_name := name', fa_field_index := field_index,
          fa_field_offset := field_offset, fa_field_type := field_type,
          fa_access_flags := access_flags'\<rparr>"

definition resolve_klass :: "constantPool \<Rightarrow> int \<Rightarrow> vm_error + klassOop option" where
  "resolve_klass pool index =
     (case klass_ref_at pool index of Inl e \<Rightarrow> Inl (Pending e) | Inr result_oop \<Rightarrow> Inr result_oop)"

definition resolve_klass_no_update :: "constantPool \<Rightarrow> int \<Rightarrow> vm_error + klassOop option" where
  "resolve_klass_no_update pool index =
     (case klass_ref_at_if_loaded_check pool index of
        Inl e \<Rightarrow> Inl (Pending e)
      | Inr result_oop \<Rightarrow> Inr result_oop)"

definition check_field_accessability ::
  "VM \<Rightarrow> klassOop \<Rightarrow> klassOop \<Rightarrow> klassOop \<Rightarrow> fieldDescriptor \<Rightarrow> vm_error + unit" where
  "check_field_accessability vm ref_klass resolved_klass' sel_klass fd =
     (if \<not> verify_field_access vm ref_klass resolved_klass' sel_klass (fd_access_flags fd) True
      then THROW java_lang_IllegalAccessError
      else Inr ())"

definition check_field_loader_constraints ::
  "VM \<Rightarrow> klassOop \<Rightarrow> klassOop \<Rightarrow> symbol \<Rightarrow> symbol \<Rightarrow> vm_error + unit" where
  "check_field_loader_constraints vm ref_klass sel_klass name' sig =
     (let ref_loader = class_loader vm ref_klass;
          sel_loader = class_loader vm sel_klass
      in case check_signature_loaders vm sig ref_loader sel_loader False of
           Some failed_type_name \<Rightarrow> THROW java_lang_LinkageError
         | None \<Rightarrow> Inr ())"

text \<open>
  \<open>resolve_field\<close> returns the access information and the initialization states, which
  \<open>initialize\<close> of the declaring class may have changed.
\<close>

definition resolve_field ::
  "VM \<Rightarrow> init_states \<Rightarrow> FieldAccessInfo \<Rightarrow> constantPool \<Rightarrow> int \<Rightarrow> Bytecodes \<Rightarrow> bool \<Rightarrow> bool
     \<Rightarrow> vm_error + (FieldAccessInfo \<times> init_states)" where
  "resolve_field vm init_state result pool index byte check_only update_pool =
     (let is_static' = (byte = Bytecodes_getstatic \<or> byte = Bytecodes_putstatic);
          is_put = (byte = Bytecodes_putfield \<or> byte = Bytecodes_putstatic)
      in case (if update_pool then resolve_klass pool index
               else resolve_klass_no_update pool index) of
           Inl e \<Rightarrow> Inl e
         | Inr resolved_klass' \<Rightarrow>
             (let field = name_ref_at pool index;
                  sig = signature_ref_at pool index
              in case resolved_klass' of
                   None \<Rightarrow> THROW java_lang_NoSuchFieldError
                 | Some resolved_klass' \<Rightarrow>
                     (case find_field vm resolved_klass' field sig of
                        None \<Rightarrow> THROW java_lang_NoSuchFieldError
                      | Some (sel_klass, fd) \<Rightarrow>
                          (let ref_klass = pool_holder pool
                           in case check_field_accessability vm ref_klass resolved_klass'
                                     sel_klass fd of
                                Inl e \<Rightarrow> Inl e
                              | Inr u \<Rightarrow>
                                  if is_static' \<noteq> is_static (fd_access_flags fd)
                                  then THROW java_lang_IncompatibleClassChangeError
                                  else if is_put \<and> is_final (fd_access_flags fd)
                                          \<and> sel_klass \<noteq> pool_holder pool
                                  then THROW java_lang_IllegalAccessError
                                  else
                                    (case (if is_static' \<and> \<not> check_only
                                           then initialize vm sel_klass init_state
                                           else Inr init_state) of
                                       Inl e \<Rightarrow> Inl (Pending e)
                                     | Inr init_state \<Rightarrow>
                                         (case check_field_loader_constraints vm ref_klass
                                                 sel_klass field sig of
                                            Inl e \<Rightarrow> Inl e
                                          | Inr u \<Rightarrow>
                                              (let holder = fd_field_holder fd;
                                                   name' = fd_name fd
                                               in Inr (FieldAccessInfo_set result holder name'
                                                         (fd_index fd) (fd_offset fd)
                                                         (fd_field_type fd)
                                                         (fd_access_flags fd),
                                                       init_state))))))))"

subsection \<open>Invoke resolution\<close>

definition linktime_resolve_static_method ::
  "VM \<Rightarrow> init_states \<Rightarrow> methodHandle \<Rightarrow> klassOop \<Rightarrow> symbol \<Rightarrow> symbol \<Rightarrow> klassOop \<Rightarrow> bool
     \<Rightarrow> vm_error + methodOopDesc" where
  "linktime_resolve_static_method vm init_state resolved_method' resolved_klass' method_name
       method_signature current_klass check_access =
     (case resolve_method vm init_state resolved_method' resolved_klass' method_name
             method_signature current_klass check_access of
        Inl e \<Rightarrow> Inl e
      | Inr m \<Rightarrow>
          if \<not> is_static (access_flags m)
          then THROW java_lang_IncompatibleClassChangeError
          else Inr m)"

text \<open>
  \<open>resolve_static_call\<close> returns the call information, the value it leaves in its
  reference parameter \<open>resolved_klass\<close>, and the initialization states.
\<close>

definition resolve_static_call ::
  "VM \<Rightarrow> init_states \<Rightarrow> CallInfo \<Rightarrow> klassOop \<Rightarrow> symbol \<Rightarrow> symbol \<Rightarrow> klassOop \<Rightarrow> bool \<Rightarrow> bool
     \<Rightarrow> vm_error + (CallInfo \<times> klassOop \<times> init_states)" where
  "resolve_static_call vm init_state result resolved_klass' method_name method_signature
       current_klass check_access initialize_class =
     (case linktime_resolve_static_method vm init_state None resolved_klass' method_name
             method_signature current_klass check_access of
        Inl e \<Rightarrow> Inl e
      | Inr m \<Rightarrow>
          (let resolved_klass' = method_holder m
           in if initialize_class \<and> should_be_initialized vm init_state resolved_klass' then
                (case initialize vm resolved_klass' init_state of
                   Inl e \<Rightarrow> Inl (Pending e)
                 | Inr init_state \<Rightarrow>
                     (case linktime_resolve_static_method vm init_state (Some m)
                             resolved_klass' method_name method_signature current_klass
                             check_access of
                        Inl e \<Rightarrow> Inl e
                      | Inr m \<Rightarrow>
                          (case set_static vm init_state result resolved_klass' m of
                             Inl e \<Rightarrow> Inl e
                           | Inr result \<Rightarrow> Inr (result, resolved_klass', init_state))))
              else
                (case set_static vm init_state result resolved_klass' m of
                   Inl e \<Rightarrow> Inl e
                 | Inr result \<Rightarrow> Inr (result, resolved_klass', init_state))))"

definition linktime_resolve_special_method ::
  "VM \<Rightarrow> init_states \<Rightarrow> methodHandle \<Rightarrow> klassOop \<Rightarrow> symbol \<Rightarrow> symbol \<Rightarrow> klassOop \<Rightarrow> bool
     \<Rightarrow> vm_error + methodOopDesc" where
  "linktime_resolve_special_method vm init_state resolved_method' resolved_klass' method_name
       method_signature current_klass check_access =
     (case resolve_method vm init_state resolved_method' resolved_klass' method_name
             method_signature current_klass check_access of
        Inl e \<Rightarrow> Inl e
      | Inr m \<Rightarrow>
          if name m = object_initializer_name \<and> method_holder m \<noteq> resolved_klass'
          then THROW java_lang_NoSuchMethodError
          else if is_static (access_flags m)
          then THROW java_lang_IncompatibleClassChangeError
          else Inr m)"

text \<open>
  In \<open>runtime_resolve_special_method\<close> the selected method is first the resolved one; the
  block of the old-style super call replaces it. \<open>current_klass->super()\<close> may be null,
  and the lookup then calls through a null klass. Methods are compared as values: a
  method is determined by its holder, its name and its descriptor.
\<close>

definition runtime_resolve_special_method ::
  "VM \<Rightarrow> init_states \<Rightarrow> CallInfo \<Rightarrow> methodOopDesc \<Rightarrow> klassOop \<Rightarrow> klassOop \<Rightarrow> bool
     \<Rightarrow> (vm_error + CallInfo) option" where
  "runtime_resolve_special_method vm init_state result resolved_method' resolved_klass'
       current_klass check_access =
     (let method_klass = method_holder resolved_method';
          sel_method =
            (if check_access
                \<and> (is_super vm current_klass \<or> \<not> AllowNonVirtualCalls vm)
                \<and> is_subtype_of vm current_klass method_klass \<and> current_klass \<noteq> method_klass
                \<and> name resolved_method' \<noteq> object_initializer_name
             then
               (case super vm current_klass of
                  None \<Rightarrow> Some (Inl Crash)
                | Some super_klass \<Rightarrow>
                    (case lookup_instance_method_in_klasses vm super_klass
                            (name resolved_method') (signature resolved_method') of
                       None \<Rightarrow> None
                     | Some (Inl e) \<Rightarrow> Some (Inl e)
                     | Some (Inr None) \<Rightarrow> Some (THROW java_lang_AbstractMethodError)
                     | Some (Inr (Some sel_method)) \<Rightarrow>
                         if sel_method \<noteq> resolved_method' then
                           (case check_method_loader_constraints vm sel_method resolved_klass'
                                   (name sel_method) (signature sel_method) current_klass of
                              Inl e \<Rightarrow> Some (Inl e)
                            | Inr u \<Rightarrow> Some (Inr sel_method))
                         else Some (Inr sel_method)))
             else Some (Inr resolved_method'))
      in case sel_method of
           None \<Rightarrow> None
         | Some (Inl e) \<Rightarrow> Some (Inl e)
         | Some (Inr sel_method) \<Rightarrow>
             Some (if is_static (access_flags sel_method)
                   then THROW java_lang_IncompatibleClassChangeError
                   else if is_abstract (access_flags sel_method)
                   then THROW java_lang_AbstractMethodError
                   else set_static vm init_state result resolved_klass' sel_method))"

definition resolve_special_call ::
  "VM \<Rightarrow> init_states \<Rightarrow> CallInfo \<Rightarrow> klassOop \<Rightarrow> symbol \<Rightarrow> symbol \<Rightarrow> klassOop \<Rightarrow> bool
     \<Rightarrow> (vm_error + CallInfo) option" where
  "resolve_special_call vm init_state result resolved_klass' method_name method_signature
       current_klass check_access =
     (case linktime_resolve_special_method vm init_state None resolved_klass' method_name
             method_signature current_klass check_access of
        Inl e \<Rightarrow> Some (Inl e)
      | Inr resolved_method' \<Rightarrow>
          runtime_resolve_special_method vm init_state result resolved_method'
            resolved_klass' current_klass check_access)"

definition linktime_resolve_virtual_method ::
  "VM \<Rightarrow> init_states \<Rightarrow> methodHandle \<Rightarrow> klassOop \<Rightarrow> symbol \<Rightarrow> symbol \<Rightarrow> klassOop \<Rightarrow> bool
     \<Rightarrow> vm_error + methodOopDesc" where
  "linktime_resolve_virtual_method vm init_state resolved_method' resolved_klass' method_name
       method_signature current_klass check_access =
     (case resolve_method vm init_state resolved_method' resolved_klass' method_name
             method_signature current_klass check_access of
        Inl e \<Rightarrow> Inl e
      | Inr m \<Rightarrow>
          if is_static (access_flags m)
          then THROW java_lang_IncompatibleClassChangeError
          else Inr m)"

text \<open>\<open>recv\<close> is the receiver handle, \<open>None\<close> when it is null; \<open>recv_klass\<close> its class.\<close>

definition runtime_resolve_virtual_method ::
  "VM \<Rightarrow> init_states \<Rightarrow> CallInfo \<Rightarrow> methodOopDesc \<Rightarrow> klassOop \<Rightarrow> Handle \<Rightarrow> klassOop \<Rightarrow> bool
     \<Rightarrow> vm_error + CallInfo" where
  "runtime_resolve_virtual_method vm init_state result resolved_method' resolved_klass' recv
       recv_klass check_null_and_abstract =
     (if check_null_and_abstract \<and> recv = None then THROW java_lang_NullPointerException
      else
        (let (vtable_index', selected_method') =
               (if is_interface vm (method_holder resolved_method') then
                  (let vtable_index' =
                         vtable_index_of_miranda_method vm resolved_klass'
                           (name resolved_method') (signature resolved_method')
                   in (vtable_index', method_at_vtable vm recv_klass vtable_index'))
                else
                  (let vtable_index' = vtable_index resolved_method'
                   in if vtable_index' = nonvirtual_vtable_index vm
                      then (vtable_index', Some resolved_method')
                      else (vtable_index', method_at_vtable vm recv_klass vtable_index')))
         in case selected_method' of
              None \<Rightarrow> THROW java_lang_AbstractMethodError
            | Some selected_method' \<Rightarrow>
                if check_null_and_abstract \<and> is_abstract (access_flags selected_method')
                then THROW java_lang_AbstractMethodError
                else set_virtual vm init_state result resolved_klass' recv_klass
                       resolved_method' selected_method' vtable_index'))"

definition resolve_virtual_call ::
  "VM \<Rightarrow> init_states \<Rightarrow> CallInfo \<Rightarrow> Handle \<Rightarrow> klassOop \<Rightarrow> klassOop \<Rightarrow> symbol \<Rightarrow> symbol
     \<Rightarrow> klassOop \<Rightarrow> bool \<Rightarrow> bool \<Rightarrow> vm_error + CallInfo" where
  "resolve_virtual_call vm init_state result recv receiver_klass resolved_klass' method_name
       method_signature current_klass check_access check_null_and_abstract =
     (case linktime_resolve_virtual_method vm init_state None resolved_klass' method_name
             method_signature current_klass check_access of
        Inl e \<Rightarrow> Inl e
      | Inr resolved_method' \<Rightarrow>
          runtime_resolve_virtual_method vm init_state result resolved_method'
            resolved_klass' recv receiver_klass check_null_and_abstract)"

definition linktime_resolve_interface_method ::
  "VM \<Rightarrow> klassOop \<Rightarrow> symbol \<Rightarrow> symbol \<Rightarrow> klassOop \<Rightarrow> bool
     \<Rightarrow> (vm_error + methodOopDesc) option" where
  "linktime_resolve_interface_method vm resolved_klass' method_name method_signature
       current_klass check_access =
     resolve_interface_method vm resolved_klass' method_name method_signature current_klass
       check_access"

definition runtime_resolve_interface_method ::
  "VM \<Rightarrow> init_states \<Rightarrow> CallInfo \<Rightarrow> methodOopDesc \<Rightarrow> klassOop \<Rightarrow> Handle \<Rightarrow> klassOop \<Rightarrow> bool
     \<Rightarrow> (vm_error + CallInfo) option" where
  "runtime_resolve_interface_method vm init_state result resolved_method' resolved_klass' recv
       recv_klass check_null_and_abstract =
     (if check_null_and_abstract \<and> recv = None
      then Some (THROW java_lang_NullPointerException)
      else if \<not> is_subtype_of vm recv_klass resolved_klass'
      then Some (THROW java_lang_IncompatibleClassChangeError)
      else
        (case lookup_instance_method_in_klasses vm recv_klass (name resolved_method')
                (signature resolved_method') of
           None \<Rightarrow> None
         | Some (Inl e) \<Rightarrow> Some (Inl e)
         | Some (Inr None) \<Rightarrow> Some (THROW java_lang_AbstractMethodError)
         | Some (Inr (Some sel_method)) \<Rightarrow>
             Some (if \<not> is_public (access_flags sel_method)
                   then THROW java_lang_IllegalAccessError
                   else if check_null_and_abstract \<and> is_abstract (access_flags sel_method)
                   then THROW java_lang_AbstractMethodError
                   else set_interface vm init_state result resolved_klass' recv_klass
                          resolved_method' sel_method)))"

definition resolve_interface_call ::
  "VM \<Rightarrow> init_states \<Rightarrow> CallInfo \<Rightarrow> Handle \<Rightarrow> klassOop \<Rightarrow> klassOop \<Rightarrow> symbol \<Rightarrow> symbol
     \<Rightarrow> klassOop \<Rightarrow> bool \<Rightarrow> bool \<Rightarrow> (vm_error + CallInfo) option" where
  "resolve_interface_call vm init_state result recv recv_klass resolved_klass' method_name
       method_signature current_klass check_access check_null_and_abstract =
     (case linktime_resolve_interface_method vm resolved_klass' method_name method_signature
             current_klass check_access of
        None \<Rightarrow> None
      | Some (Inl e) \<Rightarrow> Some (Inl e)
      | Some (Inr resolved_method') \<Rightarrow>
          runtime_resolve_interface_method vm init_state result resolved_method'
            resolved_klass' recv recv_klass check_null_and_abstract)"

text \<open>
  \<open>resolve_handle_call\<close> passes pointers to two empty handles. With access checking, an
  intrinsic's holder is read from \<open>resolved_method\<close>, which the lookup may have left null.
\<close>

definition resolve_handle_call ::
  "VM \<Rightarrow> init_states \<Rightarrow> CallInfo \<Rightarrow> klassOop \<Rightarrow> symbol \<Rightarrow> symbol \<Rightarrow> klassOop \<Rightarrow> bool
     \<Rightarrow> vm_error + CallInfo" where
  "resolve_handle_call vm init_state result resolved_klass' method_name method_signature
       current_klass check_access =
     (case lookup_polymorphic_method vm init_state None resolved_klass' method_name
             method_signature current_klass (Some None) (Some None) of
        (Some e, resolved_method', resolved_appendix', resolved_method_type') \<Rightarrow>
          Inl (Pending e)
      | (None, resolved_method', resolved_appendix', resolved_method_type') \<Rightarrow>
          (let resolved_appendix' = (case resolved_appendix' of None \<Rightarrow> None | Some h \<Rightarrow> h);
               resolved_method_type' =
                 (case resolved_method_type' of None \<Rightarrow> None | Some h \<Rightarrow> h);
               checked =
                 (if check_access then
                    (let iid = signature_polymorphic_name_id vm method_name
                     in if is_signature_polymorphic_intrinsic vm iid then
                          (case resolved_method' of
                             None \<Rightarrow> Inl Crash
                           | Some m \<Rightarrow>
                               check_method_accessability vm current_klass resolved_klass'
                                 (method_holder m) m)
                        else Inr ())
                  else Inr ())
           in case checked of
                Inl e \<Rightarrow> Inl e
              | Inr u \<Rightarrow>
                  set_handle vm init_state result resolved_method' resolved_appendix'
                    resolved_method_type'))"

definition resolve_dynamic_call ::
  "VM \<Rightarrow> init_states \<Rightarrow> CallInfo \<Rightarrow> Handle \<Rightarrow> symbol \<Rightarrow> symbol \<Rightarrow> klassOop
     \<Rightarrow> vm_error + CallInfo" where
  "resolve_dynamic_call vm init_state result bootstrap_specifier method_name method_signature
       current_klass =
     (case find_dynamic_call_site_invoker vm current_klass bootstrap_specifier method_name
             method_signature of
        Inl pending_exception \<Rightarrow>
          if is_a vm pending_exception (BootstrapMethodError_klass vm)
          then Inl (Pending pending_exception)
          else if \<not> is_a vm pending_exception (LinkageError_klass vm)
          then Inl (Pending pending_exception)
          else (let nested_exception = Some pending_exception
                in THROW_CAUSE java_lang_BootstrapMethodError nested_exception)
      | Inr (resolved_method', resolved_appendix', resolved_method_type') \<Rightarrow>
          set_handle vm init_state result resolved_method' resolved_appendix'
            resolved_method_type')"

subsection \<open>What the resolver expects of classes and vtables\<close>

text \<open>
  The resolver does not build the method tables it reads; it relies on their layout and
  says so in assertions only. The properties below state that layout.
  \<open>lookup_returns_descriptor\<close>: the search of a class and its superclasses returns a
  method of the descriptor asked for. \<open>vtable_layout\<close>: a class keeps, in every vtable
  slot that a supertype fills, a method of the same descriptor (an override or the
  inherited method). \<open>virtual_call_well_formed\<close>: the receiver class of a virtual call
  is a subtype of the class whose vtable gives the index of the call, and that vtable
  has a method of the resolved descriptor at the index; the class is the resolved
  class for a miranda method, found by \<open>index_of_miranda\<close>, and the holder of the
  resolved method otherwise. \<open>superclasses_well_founded\<close>: superclasses have a smaller
  depth, and the search of a class returns a method that the class or one of its
  superclasses holds.
\<close>

definition superclasses_well_founded :: "VM \<Rightarrow> (klassOop \<Rightarrow> nat) \<Rightarrow> bool" where
  "superclasses_well_founded vm depth \<longleftrightarrow>
     (\<forall>k k'. super vm k = Some k' \<longrightarrow> depth k' < depth k)
     \<and> (\<forall>k n s m. uncached_lookup_method vm k n s = Some m \<longrightarrow>
            depth (method_holder m) \<le> depth k)"

definition lookup_returns_descriptor :: "VM \<Rightarrow> bool" where
  "lookup_returns_descriptor vm \<longleftrightarrow>
     (\<forall>k n s m. uncached_lookup_method vm k n s = Some m \<longrightarrow> signature m = s)"

definition vtable_layout :: "VM \<Rightarrow> bool" where
  "vtable_layout vm \<longleftrightarrow>
     (\<forall>sub sup i m m'.
        is_subtype_of vm sub sup \<and> vtable vm sup i = Some m \<and> vtable vm sub i = Some m'
        \<longrightarrow> signature m' = signature m)"

definition virtual_call_well_formed ::
  "VM \<Rightarrow> methodOopDesc \<Rightarrow> klassOop \<Rightarrow> klassOop \<Rightarrow> bool" where
  "virtual_call_well_formed vm resolved_method' resolved_klass' recv_klass \<longleftrightarrow>
     (if is_interface vm (method_holder resolved_method') then
        is_subtype_of vm recv_klass resolved_klass'
        \<and> (\<exists>miranda.
             vtable vm resolved_klass'
               (index_of_miranda vm resolved_klass' (name resolved_method')
                  (signature resolved_method')) = Some miranda
             \<and> signature miranda = signature resolved_method')
      else
        is_subtype_of vm recv_klass (method_holder resolved_method')
        \<and> (vtable_index resolved_method' = nonvirtual_vtable_index vm
            \<or> vtable vm (method_holder resolved_method') (vtable_index resolved_method')
                = Some resolved_method'))"

subsection \<open>A small virtual machine\<close>

text \<open>
  A concrete \<open>VM\<close> on which the statements below are evaluated. Its classes:
  \<open>Object\<close>; the class \<open>Base\<close> with the virtual method \<open>area()D\<close> in vtable slot 3, the
  static method \<open>count()I\<close>, the final method \<open>id()I\<close> and the static final field
  \<open>LIMIT\<close>; \<open>Circle\<close>, which extends \<open>Base\<close>, overrides \<open>area\<close> and declares the final
  field \<open>radius\<close>; \<open>Sub\<close>, which extends \<open>Circle\<close>; the interface \<open>Shape\<close> with the
  abstract method \<open>area()D\<close>; \<open>Square\<close>, which implements \<open>Shape\<close> with a protected
  \<open>area\<close>; the abstract class \<open>AbstractShape\<close>, which implements \<open>Shape\<close> and declares
  nothing, and its subclass \<open>Disk\<close>, whose \<open>area\<close> fills the miranda slot 5;
  \<open>MethodHandle\<close> with the signature-polymorphic \<open>invokeExact\<close>; the array class
  \<open>int[]\<close>; \<open>Plugin\<close>, which extends \<open>Object\<close>, with the method \<open>take(LT;)V\<close> in vtable
  slot 3 and the field \<open>t\<close> of type \<open>T\<close>; \<open>PluginMid\<close>, which extends \<open>Plugin\<close> and
  overrides \<open>take\<close>; \<open>PluginUser\<close>, which extends \<open>PluginMid\<close>; and the interface
  \<open>Sink\<close> with the abstract method \<open>accept(LT;)V\<close>. \<open>Sub\<close> and \<open>PluginUser\<close> are defined
  by loader 1, \<open>Plugin\<close>, \<open>PluginMid\<close> and \<open>Sink\<close> by loader 2, and the two loaders have
  different classes for the name \<open>T\<close>; every other class is the boot loader's. The
  access verification of this machine permits the public members, and to a class its
  own members.
\<close>

definition k_Object :: klassOop where "k_Object = 0"
definition k_Base :: klassOop where "k_Base = 1"
definition k_Circle :: klassOop where "k_Circle = 2"
definition k_Shape :: klassOop where "k_Shape = 3"
definition k_MethodHandle :: klassOop where "k_MethodHandle = 4"
definition k_IntArray :: klassOop where "k_IntArray = 5"
definition k_BootstrapMethodError :: klassOop where "k_BootstrapMethodError = 6"
definition k_LinkageError :: klassOop where "k_LinkageError = 7"
definition k_Sub :: klassOop where "k_Sub = 8"
definition k_Plugin :: klassOop where "k_Plugin = 9"
definition k_Square :: klassOop where "k_Square = 10"
definition k_AbstractShape :: klassOop where "k_AbstractShape = 11"
definition k_Disk :: klassOop where "k_Disk = 12"
definition k_Sink :: klassOop where "k_Sink = 13"
definition k_PluginMid :: klassOop where "k_PluginMid = 14"
definition k_PluginUser :: klassOop where "k_PluginUser = 15"

definition Object_clone :: methodOopDesc where
  "Object_clone = \<lparr>name = ''clone'', signature = ''()Ljava/lang/Object;'',
     method_holder = k_Object, access_flags = 0x0104, vtable_index = 0,
     intrinsic_id = vmIntrinsics_none\<rparr>"
definition Base_area :: methodOopDesc where
  "Base_area = \<lparr>name = ''area'', signature = ''()D'', method_holder = k_Base,
     access_flags = 0x0001, vtable_index = 3, intrinsic_id = vmIntrinsics_none\<rparr>"
definition Circle_area :: methodOopDesc where
  "Circle_area = \<lparr>name = ''area'', signature = ''()D'', method_holder = k_Circle,
     access_flags = 0x0001, vtable_index = 3, intrinsic_id = vmIntrinsics_none\<rparr>"
definition Shape_area :: methodOopDesc where
  "Shape_area = \<lparr>name = ''area'', signature = ''()D'', method_holder = k_Shape,
     access_flags = 0x0401, vtable_index = - 4, intrinsic_id = vmIntrinsics_none\<rparr>"
definition Square_area :: methodOopDesc where
  "Square_area = \<lparr>name = ''area'', signature = ''()D'', method_holder = k_Square,
     access_flags = 0x0004, vtable_index = 5, intrinsic_id = vmIntrinsics_none\<rparr>"
definition Disk_area :: methodOopDesc where
  "Disk_area = \<lparr>name = ''area'', signature = ''()D'', method_holder = k_Disk,
     access_flags = 0x0001, vtable_index = 5, intrinsic_id = vmIntrinsics_none\<rparr>"
definition Base_count :: methodOopDesc where
  "Base_count = \<lparr>name = ''count'', signature = ''()I'', method_holder = k_Base,
     access_flags = 0x0009, vtable_index = - 2, intrinsic_id = vmIntrinsics_none\<rparr>"
definition Base_id :: methodOopDesc where
  "Base_id = \<lparr>name = ''id'', signature = ''()I'', method_holder = k_Base,
     access_flags = 0x0011, vtable_index = - 2, intrinsic_id = vmIntrinsics_none\<rparr>"
definition MethodHandle_invokeExact :: methodOopDesc where
  "MethodHandle_invokeExact = \<lparr>name = ''invokeExact'',
     signature = ''([Ljava/lang/Object;)Ljava/lang/Object;'', method_holder = k_MethodHandle,
     access_flags = 0x0111, vtable_index = - 2, intrinsic_id = vmIntrinsics_invokeGeneric\<rparr>"
definition MethodHandle_linker :: methodOopDesc where
  "MethodHandle_linker = \<lparr>name = ''linkToCallSite'', signature = ''(I)V'',
     method_holder = k_MethodHandle, access_flags = 0x0008, vtable_index = - 2,
     intrinsic_id = vmIntrinsics_none\<rparr>"
definition Plugin_take :: methodOopDesc where
  "Plugin_take = \<lparr>name = ''take'', signature = ''(LT;)V'', method_holder = k_Plugin,
     access_flags = 0x0001, vtable_index = 3, intrinsic_id = vmIntrinsics_none\<rparr>"
definition PluginMid_take :: methodOopDesc where
  "PluginMid_take = \<lparr>name = ''take'', signature = ''(LT;)V'', method_holder = k_PluginMid,
     access_flags = 0x0001, vtable_index = 3, intrinsic_id = vmIntrinsics_none\<rparr>"
definition Sink_accept :: methodOopDesc where
  "Sink_accept = \<lparr>name = ''accept'', signature = ''(LT;)V'', method_holder = k_Sink,
     access_flags = 0x0401, vtable_index = - 4, intrinsic_id = vmIntrinsics_none\<rparr>"

definition Base_LIMIT :: fieldDescriptor where
  "Base_LIMIT = \<lparr>fd_name = ''LIMIT'', fd_access_flags = 0x0019, fd_index = 0,
     fd_offset = 96, fd_field_type = 10, fd_field_holder = k_Base\<rparr>"
definition Circle_radius :: fieldDescriptor where
  "Circle_radius = \<lparr>fd_name = ''radius'', fd_access_flags = 0x0011, fd_index = 0,
     fd_offset = 16, fd_field_type = 7, fd_field_holder = k_Circle\<rparr>"
definition Plugin_t :: fieldDescriptor where
  "Plugin_t = \<lparr>fd_name = ''t'', fd_access_flags = 0x0001, fd_index = 0,
     fd_offset = 16, fd_field_type = 12, fd_field_holder = k_Plugin\<rparr>"

definition example_lookup :: "klassOop \<Rightarrow> symbol \<Rightarrow> symbol \<Rightarrow> methodHandle" where
  "example_lookup k n s =
     (if n = ''area'' \<and> s = ''()D'' then
        (if k = k_Base then Some Base_area
         else if k = k_Circle \<or> k = k_Sub then Some Circle_area
         else if k = k_Shape then Some Shape_area
         else if k = k_Square then Some Square_area
         else if k = k_Disk then Some Disk_area
         else None)
      else if n = ''count'' \<and> s = ''()I'' then
        (if k = k_Base \<or> k = k_Circle \<or> k = k_Sub then Some Base_count else None)
      else if n = ''id'' \<and> s = ''()I'' then
        (if k = k_Base \<or> k = k_Circle \<or> k = k_Sub then Some Base_id else None)
      else if n = ''clone'' \<and> s = ''()Ljava/lang/Object;'' then Some Object_clone
      else if n = ''invokeExact'' \<and> s = ''([Ljava/lang/Object;)Ljava/lang/Object;'' then
        (if k = k_MethodHandle then Some MethodHandle_invokeExact else None)
      else if n = ''take'' \<and> s = ''(LT;)V'' then
        (if k = k_Plugin then Some Plugin_take
         else if k = k_PluginMid \<or> k = k_PluginUser then Some PluginMid_take
         else None)
      else if n = ''accept'' \<and> s = ''(LT;)V'' then
        (if k = k_Sink then Some Sink_accept else None)
      else None)"

definition example_vtable :: "klassOop \<Rightarrow> int \<Rightarrow> methodHandle" where
  "example_vtable k i =
     (if i = 0 then Some Object_clone
      else if i = 3 then
        (if k = k_Base then Some Base_area
         else if k = k_Circle \<or> k = k_Sub then Some Circle_area
         else if k = k_Plugin then Some Plugin_take
         else if k = k_PluginMid \<or> k = k_PluginUser then Some PluginMid_take
         else None)
      else if i = 5 then
        (if k = k_Square then Some Square_area
         else if k = k_AbstractShape then Some Shape_area
         else if k = k_Disk then Some Disk_area
         else None)
      else None)"

definition example_VM :: VM where
  "example_VM = \<lparr>
     is_interface = (\<lambda>k. k = k_Shape \<or> k = k_Sink),
     oop_is_array = (\<lambda>k. k = k_IntArray),
     klass_is_abstract = (\<lambda>k. k = k_Shape \<or> k = k_AbstractShape \<or> k = k_Sink),
     is_super = (\<lambda>k. k \<noteq> k_Shape \<and> k \<noteq> k_Sink),
     super = (\<lambda>k. if k = k_Object then None
                    else if k = k_Circle then Some k_Base
                    else if k = k_Sub then Some k_Circle
                    else if k = k_Disk then Some k_AbstractShape
                    else if k = k_PluginMid then Some k_Plugin
                    else if k = k_PluginUser then Some k_PluginMid
                    else Some k_Object),
     is_subtype_of = (\<lambda>sub sup. sub = sup \<or> sup = k_Object
                        \<or> (sub, sup) \<in> set [(k_Circle, k_Base), (k_Sub, k_Circle), (k_Sub, k_Base),
                                 (k_Square, k_Shape), (k_AbstractShape, k_Shape),
                                 (k_Disk, k_AbstractShape), (k_Disk, k_Shape),
                                 (k_PluginMid, k_Plugin), (k_PluginUser, k_PluginMid),
                                 (k_PluginUser, k_Plugin),
                                 (k_BootstrapMethodError, k_LinkageError)]),
     class_loader = (\<lambda>k. if k = k_Sub \<or> k = k_PluginUser then Some 1
                           else if k = k_Plugin \<or> k = k_PluginMid \<or> k = k_Sink then Some 2
                           else None),
     uncached_lookup_method = example_lookup,
     lookup_method_in_all_interfaces =
       (\<lambda>k n s. if (k = k_Square \<or> k = k_AbstractShape \<or> k = k_Disk) \<and> n = ''area'' \<and> s = ''()D''
                 then Some Shape_area else None),
     find_field =
       (\<lambda>k n s. if (k = k_Base \<or> k = k_Circle \<or> k = k_Sub) \<and> n = ''LIMIT'' \<and> s = ''I''
                 then Some (k_Base, Base_LIMIT)
                 else if (k = k_Circle \<or> k = k_Sub) \<and> n = ''radius'' \<and> s = ''D''
                 then Some (k_Circle, Circle_radius)
                 else if k = k_Plugin \<and> n = ''t'' \<and> s = ''LT;'' then Some (k_Plugin, Plugin_t)
                 else None),
     vtable = example_vtable,
     index_of_miranda =
       (\<lambda>k n s. if (k = k_AbstractShape \<or> k = k_Disk) \<and> n = ''area'' \<and> s = ''()D'' then 5 else - 1),
     should_be_initialized = (\<lambda>init_state k. init_state k \<noteq> fully_initialized),
     initialize = (\<lambda>k init_state. Inr (init_state(k := fully_initialized))),
     Object_klass = k_Object,
     MethodHandle_klass = k_MethodHandle,
     MethodHandleNatives_klass = None,
     BootstrapMethodError_klass = k_BootstrapMethodError,
     LinkageError_klass = k_LinkageError,
     is_a =
       (\<lambda>e k. (k = k_BootstrapMethodError \<and> exception_klass e = ''java/lang/BootstrapMethodError'')
              \<or> (k = k_LinkageError \<and> exception_klass e \<in> set [''java/lang/LinkageError'',
                     ''java/lang/BootstrapMethodError'',
                     ''java/lang/NoClassDefFoundError''])),
     verify_field_access =
       (\<lambda>current_class resolved_class field_class access classloader_only.
          current_class = field_class \<or> is_public access),
     signature_type_names =
       (\<lambda>s is_method. if s = ''(LT;)V'' \<or> s = ''LT;'' then [''T''] else []),
     loader_type =
       (\<lambda>loader type_name.
          if type_name = ''T'' then
            (if loader = Some 1 then Some 20 else if loader = Some 2 then Some 21 else None)
          else None),
     resolve_or_fail = (\<lambda>class_name. None),
     find_method_handle_intrinsic = (\<lambda>iid basic_signature. Inr None),
     find_method_handle_invoker =
       (\<lambda>n s current_klass. Inr (Some MethodHandle_linker, Some 30, Some 31)),
     find_dynamic_call_site_invoker =
       (\<lambda>current_klass bootstrap_specifier n s.
          if bootstrap_specifier = Some 1
          then Inl (Throwable ''java/lang/NoClassDefFoundError'' None)
          else if bootstrap_specifier = Some 2
          then Inl (Throwable ''java/lang/BootstrapMethodError'' None)
          else if bootstrap_specifier = Some 3
          then Inl (Throwable ''java/lang/IllegalStateException'' None)
          else Inr (Some MethodHandle_linker, Some 30, Some 31)),
     signature_polymorphic_name_id =
       (\<lambda>n. if n = ''invokeExact'' \<or> n = ''invoke'' then vmIntrinsics_invokeGeneric
            else if n = ''invokeBasic'' then vmIntrinsics_invokeBasic
            else vmIntrinsics_none),
     is_signature_polymorphic =
       (\<lambda>iid. iid = vmIntrinsics_invokeGeneric \<or> iid = vmIntrinsics_invokeBasic),
     is_signature_polymorphic_intrinsic = (\<lambda>iid. iid = vmIntrinsics_invokeBasic),
     is_signature_polymorphic_static = (\<lambda>iid. False),
     lookup_basic_type_signature = (\<lambda>full_signature keep_last_arg. Inr full_signature),
     MethodHandles_enabled = True,
     EnableInvokeDynamic = True,
     AllowNonVirtualCalls = False,
     is_Compiler_thread = False,
     must_be_compiled = (\<lambda>m. False),
     compile_method = (\<lambda>m. None),
     nonvirtual_vtable_index = - 2,
     invalid_vtable_index = - 4\<rparr>"

definition example_init_state :: init_states where
  "example_init_state = (\<lambda>k. if k = k_Object then fully_initialized else linked)"

definition example_CallInfo :: CallInfo where
  "example_CallInfo = \<lparr>resolved_klass = k_Object, selected_klass = k_Object,
     resolved_method = Object_clone, selected_method = Object_clone, ci_vtable_index = 0,
     resolved_appendix = None, resolved_method_type = None\<rparr>"

definition example_FieldAccessInfo :: FieldAccessInfo where
  "example_FieldAccessInfo = \<lparr>fa_klass = k_Object, fa_name = [], fa_field_index = 0,
     fa_field_offset = 0, fa_field_type = 0, fa_access_flags = 0\<rparr>"

text \<open>
  The constant pool of \<open>Sub\<close>: entry 1 refers to \<open>Sub.LIMIT\<close>, entry 2 to \<open>Sub.radius\<close>,
  entry 3 to \<open>Plugin.t\<close>.
\<close>

definition example_pool :: constantPool where
  "example_pool = \<lparr>
     klass_ref_at = (\<lambda>i. Inr (Some (if i = 3 then k_Plugin else k_Sub))),
     klass_ref_at_if_loaded_check = (\<lambda>i. Inr (Some (if i = 3 then k_Plugin else k_Sub))),
     name_ref_at = (\<lambda>i. if i = 1 then ''LIMIT'' else if i = 2 then ''radius'' else ''t''),
     signature_ref_at = (\<lambda>i. if i = 1 then ''I'' else if i = 2 then ''D'' else ''LT;''),
     pool_holder = k_Sub\<rparr>"


section \<open>Properties\<close>

lemmas example_klasses = k_Object_def k_Base_def k_Circle_def k_Shape_def k_MethodHandle_def
  k_IntArray_def k_BootstrapMethodError_def k_LinkageError_def k_Sub_def k_Plugin_def
  k_Square_def k_AbstractShape_def k_Disk_def k_Sink_def k_PluginMid_def k_PluginUser_def

lemmas example_methods = Object_clone_def Base_area_def Circle_area_def Shape_area_def
  Square_area_def Disk_area_def Base_count_def Base_id_def MethodHandle_invokeExact_def
  MethodHandle_linker_def Plugin_take_def PluginMid_take_def Sink_accept_def

lemmas exception_names = java_lang_InternalError_def java_lang_IllegalAccessError_def
  java_lang_LinkageError_def java_lang_IncompatibleClassChangeError_def
  java_lang_NoSuchMethodError_def java_lang_NoSuchFieldError_def
  java_lang_AbstractMethodError_def java_lang_NullPointerException_def
  java_lang_BootstrapMethodError_def

lemmas flag_tests = is_public_def is_protected_def is_static_def is_final_def is_abstract_def
  JVM_ACC_PUBLIC_def JVM_ACC_PROTECTED_def JVM_ACC_STATIC_def JVM_ACC_FINAL_def
  JVM_ACC_ABSTRACT_def

subsection \<open>What a call information holds\<close>

lemma set_common_fields:
  "set_common vm st res rk sk rm sm vi = Inr ci \<Longrightarrow>
     resolved_klass ci = rk \<and> selected_klass ci = sk \<and> resolved_method ci = rm
     \<and> selected_method ci = sm \<and> ci_vtable_index ci = vi"
  by (auto simp: set_common_def Let_def split: if_splits option.splits)

subsection \<open>The lookup of instance methods returns\<close>

text \<open>
  When superclasses have a smaller depth and the search of a class returns methods of
  the class or its superclasses, every round of the loop of
  \<open>lookup_instance_method_in_klasses\<close> starts from a class of smaller depth. The loop
  then ends, and so do the interface and special call resolutions that use it.
\<close>

lemma lookup_instance_method_loop_returns:
  assumes "superclasses_well_founded vm depth"
  shows "\<exists>y. lookup_instance_method_loop vm name_and_signature result = Some y"
proof (cases result)
  case None
  then show ?thesis
    by (simp add: lookup_instance_method_loop.simps)
next
  case (Some first)
  have "\<exists>y. lookup_instance_method_loop vm name_and_signature (Some m) = Some y" for m
  proof (induction "depth (method_holder m)" arbitrary: m rule: less_induct)
    case less
    show ?case
    proof (cases "is_static (access_flags m)")
      case False
      then show ?thesis
        by (simp add: lookup_instance_method_loop.simps)
    next
      case True
      show ?thesis
      proof (cases "super vm (method_holder m)")
        case None
        with True show ?thesis
          by (subst lookup_instance_method_loop.simps) simp
      next
        case (Some super_klass)
        with assms have up: "depth super_klass < depth (method_holder m)"
          by (simp add: superclasses_well_founded_def)
        show ?thesis
        proof (cases "uncached_lookup_method vm super_klass (fst name_and_signature)
            (snd name_and_signature)")
          case None
          with True Some show ?thesis
            by (subst lookup_instance_method_loop.simps)
              (simp add: lookup_instance_method_loop.simps [of _ _ None])
        next
          case found: (Some m')
          with assms have "depth (method_holder m') \<le> depth super_klass"
            unfolding superclasses_well_founded_def by blast
          with up have "depth (method_holder m') < depth (method_holder m)"
            by simp
          from less [OF this] True Some found show ?thesis
            by (subst lookup_instance_method_loop.simps) simp
        qed
      qed
    qed
  qed
  with Some show ?thesis by simp
qed

lemma lookup_instance_method_in_klasses_returns:
  "superclasses_well_founded vm depth \<Longrightarrow>
     \<exists>y. lookup_instance_method_in_klasses vm k method_name sig = Some y"
  by (simp add: lookup_instance_method_in_klasses_def lookup_instance_method_loop_returns)

lemma runtime_resolve_interface_method_returns:
  assumes "superclasses_well_founded vm depth"
  shows "\<exists>outcome. runtime_resolve_interface_method vm init_state result rm k recv
           recv_klass check_null_and_abstract = Some outcome"
proof -
  from lookup_instance_method_in_klasses_returns [OF assms]
  obtain y where "lookup_instance_method_in_klasses vm recv_klass (name rm) (signature rm)
      = Some y"
    by blast
  then show ?thesis
    by (simp add: runtime_resolve_interface_method_def split: sum.splits option.splits)
qed

lemma runtime_resolve_special_method_returns:
  assumes "superclasses_well_founded vm depth"
  shows "\<exists>outcome. runtime_resolve_special_method vm init_state result rm k current_klass
           check_access = Some outcome"
proof (cases "super vm current_klass")
  case None
  then show ?thesis
    by (simp add: runtime_resolve_special_method_def Let_def)
next
  case (Some super_klass)
  from lookup_instance_method_in_klasses_returns [OF assms]
  obtain y where "lookup_instance_method_in_klasses vm super_klass (name rm) (signature rm)
      = Some y"
    by blast
  with Some show ?thesis
    by (simp add: runtime_resolve_special_method_def Let_def
        split: sum.splits option.splits)
qed

lemma example_superclasses_well_founded:
  "superclasses_well_founded example_VM
     (\<lambda>k. if k = k_Object then 0 else if k = k_Sub \<or> k = k_PluginUser then 3
          else if k = k_Circle \<or> k = k_Disk \<or> k = k_PluginMid then 2 else 1)"
proof -
  have "uncached_lookup_method example_VM = example_lookup"
    by (simp add: example_VM_def)
  moreover have "example_lookup k n s = Some m \<Longrightarrow>
      (if method_holder m = k_Object then 0
       else if method_holder m = k_Sub \<or> method_holder m = k_PluginUser then 3
       else if method_holder m = k_Circle \<or> method_holder m = k_Disk
               \<or> method_holder m = k_PluginMid then 2
       else 1)
      \<le> (if k = k_Object then 0 else if k = k_Sub \<or> k = k_PluginUser then 3
          else if k = k_Circle \<or> k = k_Disk \<or> k = k_PluginMid then (2::nat) else 1)"
    for k n s m
    unfolding example_lookup_def
    by (auto simp: example_methods example_klasses split: if_splits)
  moreover have "super example_VM k = Some k' \<Longrightarrow>
      (if k' = k_Object then 0 else if k' = k_Sub \<or> k' = k_PluginUser then 3
       else if k' = k_Circle \<or> k' = k_Disk \<or> k' = k_PluginMid then 2 else 1)
      < (if k = k_Object then 0 else if k = k_Sub \<or> k = k_PluginUser then 3
         else if k = k_Circle \<or> k = k_Disk \<or> k = k_PluginMid then (2::nat) else 1)"
    for k k'
    by (auto simp: example_VM_def example_klasses split: if_splits)
  ultimately show ?thesis
    unfolding superclasses_well_founded_def by simp
qed

subsection \<open>Access flags\<close>

lemma is_public_bit: "is_public flags = bit flags 0"
proof -
  have "flags AND 2 ^ 0 = 0 \<longleftrightarrow> \<not> bit flags 0" by (rule and_exp_eq_0_iff_not_bit)
  then show ?thesis by (simp add: is_public_def JVM_ACC_PUBLIC_def)
qed

lemma is_protected_bit: "is_protected flags = bit flags 2"
proof -
  have "flags AND 2 ^ 2 = 0 \<longleftrightarrow> \<not> bit flags 2" by (rule and_exp_eq_0_iff_not_bit)
  then show ?thesis by (simp add: is_protected_def JVM_ACC_PROTECTED_def)
qed

text \<open>The flags that the access check computes for \<open>clone\<close> on an array.\<close>

lemma clone_flags_public:
  "is_public ((flags AND NOT JVM_ACC_PROTECTED) OR JVM_ACC_PUBLIC)"
  by (simp add: is_public_bit bit_or_iff JVM_ACC_PUBLIC_def)

lemma clone_flags_not_protected:
  "\<not> is_protected ((flags AND NOT JVM_ACC_PROTECTED) OR JVM_ACC_PUBLIC)"
  by (simp add: is_protected_bit bit_or_iff bit_and_iff bit_not_iff JVM_ACC_PUBLIC_def
      JVM_ACC_PROTECTED_def)

subsection \<open>The method access check\<close>

text \<open>
  Claim C9. In \<open>check_method_accessability\<close>, when the method is named \<open>clone\<close>, its
  declaring class is \<open>Object\<close> and the resolved class is an array class, the flags
  handed to the access verification are the declared flags with the protected bit
  cleared and the public bit set: they are public and not protected, whatever the
  declared flags are. As the verification permits every public member (the hypothesis,
  the first rule of the access checker), the check then succeeds for any referring
  class. For every other member the verification gets the declared flags unchanged.
\<close>

theorem check_method_accessability_array_clone:
  assumes public_permitted:
    "\<And>current_class resolved_class field_class flags.
       is_public flags \<Longrightarrow>
       verify_field_access vm current_class resolved_class field_class flags True"
  shows "check_method_accessability vm ref_klass resolved_klass' sel_klass sel_method =
           (if verify_field_access vm ref_klass resolved_klass' sel_klass
                 (if name sel_method = clone_name \<and> sel_klass = Object_klass vm
                     \<and> oop_is_array vm resolved_klass'
                  then (access_flags sel_method AND NOT JVM_ACC_PROTECTED) OR JVM_ACC_PUBLIC
                  else access_flags sel_method)
                 True
            then Inr ()
            else THROW java_lang_IllegalAccessError)
         \<and> is_public ((access_flags sel_method AND NOT JVM_ACC_PROTECTED) OR JVM_ACC_PUBLIC)
         \<and> \<not> is_protected
               ((access_flags sel_method AND NOT JVM_ACC_PROTECTED) OR JVM_ACC_PUBLIC)
         \<and> (name sel_method = clone_name \<and> sel_klass = Object_klass vm
              \<and> oop_is_array vm resolved_klass' \<longrightarrow>
            check_method_accessability vm ref_klass resolved_klass' sel_klass sel_method
            = Inr ())"
  using public_permitted [OF clone_flags_public]
  by (simp add: check_method_accessability_def Let_def clone_flags_public
      clone_flags_not_protected)

text \<open>
  On the small machine \<open>Sub\<close> may call the protected \<open>Object.clone\<close> on \<open>int[]\<close>, but not
  on \<open>Circle\<close>.
\<close>

theorem check_method_accessability_array_clone_witness:
  "check_method_accessability example_VM k_Sub k_IntArray k_Object Object_clone = Inr ()
   \<and> check_method_accessability example_VM k_Sub k_Circle k_Object Object_clone =
       THROW java_lang_IllegalAccessError"
proof -
  have "is_public flags \<Longrightarrow>
          verify_field_access example_VM current_class resolved_class field_class flags True"
    for current_class resolved_class field_class flags
    by (simp add: example_VM_def)
  from check_method_accessability_array_clone [of example_VM, OF this]
  show ?thesis
    by (simp add: example_VM_def example_klasses Object_clone_def clone_name_def flag_tests)
qed

subsection \<open>Loader constraints\<close>

lemma check_signature_loaders_None:
  "check_signature_loaders vm sig loader1 loader2 is_method = None \<longleftrightarrow>
     (\<forall>type_name \<in> set (signature_type_names vm sig is_method).
        \<not> different_types vm loader1 loader2 type_name)"
  by (auto simp: check_signature_loaders_def find_None_iff)

lemma check_method_loader_constraints_result:
  "check_method_loader_constraints vm m k method_name sig current_klass =
     (if \<forall>type_name \<in> set (signature_type_names vm sig True).
           \<not> different_types vm (class_loader vm current_klass)
               (class_loader vm (method_holder m)) type_name
      then Inr () else THROW java_lang_LinkageError)"
  by (simp add: check_method_loader_constraints_def check_signature_loaders_None [symmetric]
      Let_def split: option.splits)

lemma check_field_loader_constraints_result:
  "check_field_loader_constraints vm ref_klass sel_klass field sig =
     (if \<forall>type_name \<in> set (signature_type_names vm sig False).
           \<not> different_types vm (class_loader vm ref_klass) (class_loader vm sel_klass)
               type_name
      then Inr () else THROW java_lang_LinkageError)"
  by (simp add: check_field_loader_constraints_def check_signature_loaders_None [symmetric]
      Let_def split: option.splits)

text \<open>Resolution with access checking is resolution without, followed by the two checks.\<close>

lemma resolve_method_checked:
  "resolve_method vm init_state rm k method_name sig current_klass True =
     (case resolve_method vm init_state rm k method_name sig current_klass False of
        Inl e \<Rightarrow> Inl e
      | Inr m \<Rightarrow>
          (case check_method_accessability vm current_klass k (method_holder m) m of
             Inl e \<Rightarrow> Inl e
           | Inr u \<Rightarrow>
               (case check_method_loader_constraints vm m k method_name sig current_klass of
                  Inl e \<Rightarrow> Inl e
                | Inr u \<Rightarrow> Inr m)))"
  by (simp add: resolve_method_def THROW_def THROW_CAUSE_def Let_def
      split: option.splits prod.splits)

lemma resolve_interface_method_checked:
  "resolve_interface_method vm k method_name sig current_klass True =
     (case resolve_interface_method vm k method_name sig current_klass False of
        None \<Rightarrow> None
      | Some (Inl e) \<Rightarrow> Some (Inl e)
      | Some (Inr m) \<Rightarrow>
          (case check_method_loader_constraints vm m k method_name sig current_klass of
             Inl e \<Rightarrow> Some (Inl e)
           | Inr u \<Rightarrow> Some (Inr m)))"
  by (simp add: resolve_interface_method_def THROW_def Let_def
      split: option.splits sum.splits)

text \<open>
  The loop of \<open>lookup_instance_method_in_klasses\<close> reads the superclasses and the methods
  of classes only. Resolution without access checking does not read the types that the
  loaders have.
\<close>

lemma lookup_instance_method_loop_same:
  assumes returns: "lookup_instance_method_loop vm name_and_signature result = Some y"
  shows "\<forall>vm'. super vm' = super vm
           \<and> uncached_lookup_method vm' = uncached_lookup_method vm \<longrightarrow>
         lookup_instance_method_loop vm' name_and_signature result = Some y"
proof (rule lookup_instance_method_loop.raw_induct
    [where P = "\<lambda>vm name_and_signature result y.
       \<forall>vm'. super vm' = super vm
           \<and> uncached_lookup_method vm' = uncached_lookup_method vm \<longrightarrow>
         lookup_instance_method_loop vm' name_and_signature result = Some y",
     OF _ returns])
  fix loop :: "VM \<Rightarrow> symbol \<times> symbol \<Rightarrow> methodHandle \<Rightarrow> (vm_error + methodHandle) option"
    and vm :: VM and name_and_signature result y
  assume IH: "\<And>vm name_and_signature result y.
      loop vm name_and_signature result = Some y \<Longrightarrow>
      \<forall>vm'. super vm' = super vm
           \<and> uncached_lookup_method vm' = uncached_lookup_method vm \<longrightarrow>
         lookup_instance_method_loop vm' name_and_signature result = Some y"
    and step: "(case result of
        None \<Rightarrow> Some (Inr None)
      | Some m \<Rightarrow>
          if is_static (access_flags m) then
            (case super vm (method_holder m) of
               None \<Rightarrow> Some (Inl Crash)
             | Some super_klass \<Rightarrow>
                 loop vm name_and_signature
                   (uncached_lookup_method vm super_klass (fst name_and_signature)
                      (snd name_and_signature)))
          else Some (Inr (Some m))) = Some y"
  show "\<forall>vm'. super vm' = super vm
           \<and> uncached_lookup_method vm' = uncached_lookup_method vm \<longrightarrow>
         lookup_instance_method_loop vm' name_and_signature result = Some y"
  proof (intro allI impI)
    fix vm' :: VM
    assume same: "super vm' = super vm
        \<and> uncached_lookup_method vm' = uncached_lookup_method vm"
    show "lookup_instance_method_loop vm' name_and_signature result = Some y"
    proof (cases result)
      case None
      with step show ?thesis
        by (simp add: lookup_instance_method_loop.simps)
    next
      case (Some m)
      show ?thesis
      proof (cases "is_static (access_flags m)")
        case False
        with Some step show ?thesis
          by (simp add: lookup_instance_method_loop.simps)
      next
        case True
        show ?thesis
        proof (cases "super vm (method_holder m)")
          case None
          with Some True step same show ?thesis
            by (subst lookup_instance_method_loop.simps) simp
        next
          case super_klass: (Some super_klass)
          with Some True step
          have "loop vm name_and_signature
                  (uncached_lookup_method vm super_klass (fst name_and_signature)
                     (snd name_and_signature)) = Some y"
            by simp
          from IH [OF this] same
          have "lookup_instance_method_loop vm' name_and_signature
                  (uncached_lookup_method vm super_klass (fst name_and_signature)
                     (snd name_and_signature)) = Some y"
            by blast
          with Some True super_klass same show ?thesis
            by (subst lookup_instance_method_loop.simps) simp
        qed
      qed
    qed
  qed
qed

lemma lookup_instance_method_loop_loader_type:
  "lookup_instance_method_loop (vm\<lparr>loader_type := types\<rparr>) name_and_signature result
     = lookup_instance_method_loop vm name_and_signature result"
proof (cases "lookup_instance_method_loop vm name_and_signature result")
  case (Some y)
  from lookup_instance_method_loop_same [OF this] Some show ?thesis
    by simp
next
  case None
  show ?thesis
  proof (cases "lookup_instance_method_loop (vm\<lparr>loader_type := types\<rparr>) name_and_signature
      result")
    case None
    with \<open>lookup_instance_method_loop vm name_and_signature result = None\<close> show ?thesis
      by simp
  next
    case (Some y)
    from lookup_instance_method_loop_same [OF this]
    have "lookup_instance_method_loop vm name_and_signature result = Some y"
      by simp
    with None show ?thesis by simp
  qed
qed

lemma lookup_polymorphic_method_loader_type:
  "lookup_polymorphic_method (vm\<lparr>loader_type := types\<rparr>) init_state rm k method_name sig
       current_klass appendix method_type
     = lookup_polymorphic_method vm init_state rm k method_name sig current_klass appendix
         method_type"
  by (simp add: lookup_polymorphic_method_def Let_def
      cong: option.case_cong sum.case_cong if_cong prod.case_cong)

lemma resolve_method_loader_type:
  "resolve_method (vm\<lparr>loader_type := types\<rparr>) init_state rm k method_name sig
       current_klass False
     = resolve_method vm init_state rm k method_name sig current_klass False"
  by (simp add: resolve_method_def lookup_method_in_klasses_def
      lookup_method_in_interfaces_def lookup_polymorphic_method_loader_type Let_def
      cong: option.case_cong sum.case_cong if_cong prod.case_cong)

lemma resolve_interface_method_loader_type:
  "resolve_interface_method (vm\<lparr>loader_type := types\<rparr>) k method_name sig current_klass
       False
     = resolve_interface_method vm k method_name sig current_klass False"
  by (simp add: resolve_interface_method_def lookup_instance_method_in_klasses_def
      lookup_method_in_interfaces_def lookup_instance_method_loop_loader_type Let_def
      cong: option.case_cong sum.case_cong if_cong)

text \<open>
  \<open>Sub\<close> (loader 1) resolves the method \<open>take(LT;)V\<close> of \<open>Plugin\<close> (loader 2), and the
  interface method \<open>accept(LT;)V\<close> of \<open>Sink\<close> (loader 2), without access checking. The
  two loaders have different classes for \<open>T\<close>, yet both resolutions succeed:
  \<open>resolve_method\<close> and \<open>resolve_interface_method\<close> check the loader constraints only
  when access checking is requested.
\<close>

theorem resolve_method_unchecked_counterexample:
  "signature_type_names example_VM ''(LT;)V'' True = [''T'']
   \<and> different_types example_VM (class_loader example_VM k_Sub)
       (class_loader example_VM (method_holder Plugin_take)) ''T''
   \<and> resolve_method example_VM example_init_state None k_Plugin ''take'' ''(LT;)V'' k_Sub
       False
     = Inr Plugin_take
   \<and> different_types example_VM (class_loader example_VM k_Sub)
       (class_loader example_VM (method_holder Sink_accept)) ''T''
   \<and> resolve_interface_method example_VM k_Sink ''accept'' ''(LT;)V'' k_Sub False
     = Some (Inr Sink_accept)"
  by (simp add: resolve_method_def resolve_interface_method_def
      lookup_method_in_klasses_def lookup_instance_method_in_klasses_def
      lookup_instance_method_loop.simps example_lookup_def
      different_types_def flag_tests example_VM_def example_klasses example_methods)

text \<open>
  Claim C8, amended. The loader constraint check runs after every successful field
  resolution, and after every successful method or interface method resolution for
  which access checking is requested. Such a resolution succeeds only if the loader of
  the referring class and the loader of the declaring class have different types for
  no type name occurring in the descriptor (the first three parts). When they have
  different types for some type name of the descriptor, and every earlier step of the
  resolution succeeds, the result is \<open>LinkageError\<close> (the next three parts). A method
  or interface method resolution without access checking does not run the check: its
  outcome is the same whatever types the loaders have (the last two parts).
\<close>

theorem loader_constraints_checked:
  "(\<forall>m. resolve_method vm init_state rm k method_name sig current_klass True = Inr m \<longrightarrow>
        (\<forall>type_name \<in> set (signature_type_names vm sig True).
           \<not> different_types vm (class_loader vm current_klass)
               (class_loader vm (method_holder m)) type_name))
   \<and> (\<forall>m. resolve_interface_method vm k method_name sig current_klass True
            = Some (Inr m) \<longrightarrow>
        (\<forall>type_name \<in> set (signature_type_names vm sig True).
           \<not> different_types vm (class_loader vm current_klass)
               (class_loader vm (method_holder m)) type_name))
   \<and> (\<forall>info init_state'.
        resolve_field vm init_state result pool index byte check_only update_pool
          = Inr (info, init_state') \<longrightarrow>
        (\<exists>k' sel_klass fd.
           (if update_pool then resolve_klass pool index
            else resolve_klass_no_update pool index) = Inr (Some k')
           \<and> find_field vm k' (name_ref_at pool index) (signature_ref_at pool index)
               = Some (sel_klass, fd)
           \<and> (\<forall>type_name \<in> set (signature_type_names vm (signature_ref_at pool index) False).
                \<not> different_types vm (class_loader vm (pool_holder pool))
                    (class_loader vm sel_klass) type_name)))
   \<and> (\<forall>m. resolve_method vm init_state rm k method_name sig current_klass False = Inr m
           \<and> check_method_accessability vm current_klass k (method_holder m) m = Inr ()
           \<and> (\<exists>type_name \<in> set (signature_type_names vm sig True).
                different_types vm (class_loader vm current_klass)
                  (class_loader vm (method_holder m)) type_name) \<longrightarrow>
        resolve_method vm init_state rm k method_name sig current_klass True
          = THROW java_lang_LinkageError)
   \<and> (\<forall>m. resolve_interface_method vm k method_name sig current_klass False = Some (Inr m)
           \<and> (\<exists>type_name \<in> set (signature_type_names vm sig True).
                different_types vm (class_loader vm current_klass)
                  (class_loader vm (method_holder m)) type_name) \<longrightarrow>
        resolve_interface_method vm k method_name sig current_klass True
          = Some (THROW java_lang_LinkageError))
   \<and> (\<forall>k' sel_klass fd init_state'.
        (if update_pool then resolve_klass pool index
         else resolve_klass_no_update pool index) = Inr (Some k')
        \<and> find_field vm k' (name_ref_at pool index) (signature_ref_at pool index)
            = Some (sel_klass, fd)
        \<and> check_field_accessability vm (pool_holder pool) k' sel_klass fd = Inr ()
        \<and> (byte = Bytecodes_getstatic \<or> byte = Bytecodes_putstatic)
            = is_static (fd_access_flags fd)
        \<and> \<not> ((byte = Bytecodes_putfield \<or> byte = Bytecodes_putstatic)
              \<and> is_final (fd_access_flags fd) \<and> sel_klass \<noteq> pool_holder pool)
        \<and> (if (byte = Bytecodes_getstatic \<or> byte = Bytecodes_putstatic) \<and> \<not> check_only
            then initialize vm sel_klass init_state else Inr init_state) = Inr init_state'
        \<and> (\<exists>type_name \<in> set (signature_type_names vm (signature_ref_at pool index) False).
             different_types vm (class_loader vm (pool_holder pool))
               (class_loader vm sel_klass) type_name) \<longrightarrow>
        resolve_field vm init_state result pool index byte check_only update_pool
          = THROW java_lang_LinkageError)
   \<and> (\<forall>types.
        resolve_method (vm\<lparr>loader_type := types\<rparr>) init_state rm k method_name sig
          current_klass False
        = resolve_method vm init_state rm k method_name sig current_klass False)
   \<and> (\<forall>types.
        resolve_interface_method (vm\<lparr>loader_type := types\<rparr>) k method_name sig
          current_klass False
        = resolve_interface_method vm k method_name sig current_klass False)"
proof (intro conjI allI impI)
  fix m
  assume "resolve_method vm init_state rm k method_name sig current_klass True = Inr m"
  then show "\<forall>type_name \<in> set (signature_type_names vm sig True).
      \<not> different_types vm (class_loader vm current_klass)
          (class_loader vm (method_holder m)) type_name"
    by (auto simp: resolve_method_checked check_method_loader_constraints_result THROW_def
        split: sum.splits if_splits)
next
  fix m
  assume "resolve_interface_method vm k method_name sig current_klass True = Some (Inr m)"
  then show "\<forall>type_name \<in> set (signature_type_names vm sig True).
      \<not> different_types vm (class_loader vm current_klass)
          (class_loader vm (method_holder m)) type_name"
    by (auto simp: resolve_interface_method_checked check_method_loader_constraints_result
        THROW_def split: sum.splits if_splits option.splits)
next
  fix info init_state'
  assume "resolve_field vm init_state result pool index byte check_only update_pool
            = Inr (info, init_state')"
  then show "\<exists>k' sel_klass fd.
      (if update_pool then resolve_klass pool index
       else resolve_klass_no_update pool index) = Inr (Some k')
      \<and> find_field vm k' (name_ref_at pool index) (signature_ref_at pool index)
          = Some (sel_klass, fd)
      \<and> (\<forall>type_name \<in> set (signature_type_names vm (signature_ref_at pool index) False).
           \<not> different_types vm (class_loader vm (pool_holder pool))
               (class_loader vm sel_klass) type_name)"
    by (simp add: resolve_field_def check_field_loader_constraints_result THROW_def Let_def
        split: sum.splits if_splits option.splits prod.splits)
next
  fix m
  assume "resolve_method vm init_state rm k method_name sig current_klass False = Inr m
      \<and> check_method_accessability vm current_klass k (method_holder m) m = Inr ()
      \<and> (\<exists>type_name \<in> set (signature_type_names vm sig True).
           different_types vm (class_loader vm current_klass)
             (class_loader vm (method_holder m)) type_name)"
  then show "resolve_method vm init_state rm k method_name sig current_klass True
      = THROW java_lang_LinkageError"
    by (auto simp: resolve_method_checked check_method_loader_constraints_result THROW_def)
next
  fix m
  assume "resolve_interface_method vm k method_name sig current_klass False = Some (Inr m)
      \<and> (\<exists>type_name \<in> set (signature_type_names vm sig True).
           different_types vm (class_loader vm current_klass)
             (class_loader vm (method_holder m)) type_name)"
  then show "resolve_interface_method vm k method_name sig current_klass True
      = Some (THROW java_lang_LinkageError)"
    by (auto simp: resolve_interface_method_checked check_method_loader_constraints_result
        THROW_def)
next
  fix k' sel_klass fd init_state'
  assume "(if update_pool then resolve_klass pool index
         else resolve_klass_no_update pool index) = Inr (Some k')
        \<and> find_field vm k' (name_ref_at pool index) (signature_ref_at pool index)
            = Some (sel_klass, fd)
        \<and> check_field_accessability vm (pool_holder pool) k' sel_klass fd = Inr ()
        \<and> (byte = Bytecodes_getstatic \<or> byte = Bytecodes_putstatic)
            = is_static (fd_access_flags fd)
        \<and> \<not> ((byte = Bytecodes_putfield \<or> byte = Bytecodes_putstatic)
              \<and> is_final (fd_access_flags fd) \<and> sel_klass \<noteq> pool_holder pool)
        \<and> (if (byte = Bytecodes_getstatic \<or> byte = Bytecodes_putstatic) \<and> \<not> check_only
            then initialize vm sel_klass init_state else Inr init_state) = Inr init_state'
        \<and> (\<exists>type_name \<in> set (signature_type_names vm (signature_ref_at pool index) False).
             different_types vm (class_loader vm (pool_holder pool))
               (class_loader vm sel_klass) type_name)"
  then show "resolve_field vm init_state result pool index byte check_only update_pool
      = THROW java_lang_LinkageError"
    by (auto simp: resolve_field_def check_field_loader_constraints_result Let_def
        THROW_def)
next
  fix types
  show "resolve_method (vm\<lparr>loader_type := types\<rparr>) init_state rm k method_name sig
          current_klass False
        = resolve_method vm init_state rm k method_name sig current_klass False"
    by (rule resolve_method_loader_type)
next
  fix types
  show "resolve_interface_method (vm\<lparr>loader_type := types\<rparr>) k method_name sig
          current_klass False
        = resolve_interface_method vm k method_name sig current_klass False"
    by (rule resolve_interface_method_loader_type)
qed

text \<open>
  On the small machine, with access checking: \<open>Sub\<close> cannot link to \<open>Plugin.take(LT;)V\<close>,
  nor to the interface method \<open>Sink.accept(LT;)V\<close>, nor to the field \<open>Plugin.t\<close> of type
  \<open>T\<close>. Without access checking, \<open>Sub\<close> links to \<open>Sink.accept\<close> also on a machine whose
  loaders have no type for any name.
\<close>

theorem loader_constraints_checked_witness:
  "resolve_method example_VM example_init_state None k_Plugin ''take'' ''(LT;)V'' k_Sub
       True
     = THROW java_lang_LinkageError
   \<and> resolve_interface_method example_VM k_Sink ''accept'' ''(LT;)V'' k_Sub True
     = Some (THROW java_lang_LinkageError)
   \<and> resolve_field example_VM example_init_state example_FieldAccessInfo example_pool 3
       Bytecodes_getfield False True
     = THROW java_lang_LinkageError
   \<and> resolve_interface_method (example_VM\<lparr>loader_type := (\<lambda>loader type_name. None)\<rparr>)
       k_Sink ''accept'' ''(LT;)V'' k_Sub False
     = Some (Inr Sink_accept)"
proof -
  note fact = loader_constraints_checked [of example_VM example_init_state None k_Plugin
      "''take''" "''(LT;)V''" k_Sub example_FieldAccessInfo example_pool 3
      Bytecodes_getfield False True]
  have no_check: "resolve_method example_VM example_init_state None k_Plugin ''take''
      ''(LT;)V'' k_Sub False = Inr Plugin_take"
    by (simp add: resolve_method_def lookup_method_in_klasses_def example_lookup_def
        flag_tests example_VM_def example_klasses example_methods)
  have access: "check_method_accessability example_VM k_Sub k_Plugin
      (method_holder Plugin_take) Plugin_take = Inr ()"
    by (simp add: check_method_accessability_def clone_name_def flag_tests example_VM_def
        example_klasses example_methods)
  have method_types: "\<exists>type_name \<in> set (signature_type_names example_VM ''(LT;)V'' True).
      different_types example_VM (class_loader example_VM k_Sub)
        (class_loader example_VM (method_holder Plugin_take)) type_name"
    by (simp add: different_types_def example_VM_def example_klasses example_methods)
  from fact no_check access method_types
  have 1: "resolve_method example_VM example_init_state None k_Plugin ''take'' ''(LT;)V''
      k_Sub True = THROW java_lang_LinkageError"
    by blast
  have klass: "(if True then resolve_klass example_pool 3
                else resolve_klass_no_update example_pool 3) = Inr (Some k_Plugin)"
    by (simp add: resolve_klass_def example_pool_def)
  have field: "find_field example_VM k_Plugin (name_ref_at example_pool 3)
      (signature_ref_at example_pool 3) = Some (k_Plugin, Plugin_t)"
    by (simp add: example_pool_def example_VM_def example_klasses)
  have field_access: "check_field_accessability example_VM (pool_holder example_pool)
      k_Plugin k_Plugin Plugin_t = Inr ()"
    by (simp add: check_field_accessability_def Plugin_t_def flag_tests example_VM_def)
  have instance_field: "(Bytecodes_getfield = Bytecodes_getstatic
        \<or> Bytecodes_getfield = Bytecodes_putstatic) = is_static (fd_access_flags Plugin_t)"
    by (simp add: Plugin_t_def flag_tests)
  have no_put: "\<not> ((Bytecodes_getfield = Bytecodes_putfield
        \<or> Bytecodes_getfield = Bytecodes_putstatic)
      \<and> is_final (fd_access_flags Plugin_t) \<and> k_Plugin \<noteq> pool_holder example_pool)"
    by simp
  have no_init: "(if (Bytecodes_getfield = Bytecodes_getstatic
        \<or> Bytecodes_getfield = Bytecodes_putstatic) \<and> \<not> False
      then initialize example_VM k_Plugin example_init_state
      else Inr example_init_state) = Inr example_init_state"
    by simp
  have field_types:
    "\<exists>type_name \<in> set (signature_type_names example_VM (signature_ref_at example_pool 3)
         False).
       different_types example_VM (class_loader example_VM (pool_holder example_pool))
         (class_loader example_VM k_Plugin) type_name"
    by (simp add: different_types_def example_pool_def example_VM_def example_klasses)
  from fact klass field field_access instance_field no_put no_init field_types
  have 2: "resolve_field example_VM example_init_state example_FieldAccessInfo example_pool
      3 Bytecodes_getfield False True = THROW java_lang_LinkageError"
    by blast
  note interface_fact = loader_constraints_checked [of example_VM example_init_state None
      k_Sink "''accept''" "''(LT;)V''" k_Sub example_FieldAccessInfo example_pool 3
      Bytecodes_getfield False True]
  have interface_no_check: "resolve_interface_method example_VM k_Sink ''accept''
      ''(LT;)V'' k_Sub False = Some (Inr Sink_accept)"
    by (simp add: resolve_interface_method_def lookup_instance_method_in_klasses_def
        lookup_instance_method_loop.simps example_lookup_def flag_tests example_VM_def
        example_klasses example_methods)
  have interface_types:
    "\<exists>type_name \<in> set (signature_type_names example_VM ''(LT;)V'' True).
       different_types example_VM (class_loader example_VM k_Sub)
         (class_loader example_VM (method_holder Sink_accept)) type_name"
    by (simp add: different_types_def example_VM_def example_klasses example_methods)
  from interface_fact interface_no_check interface_types
  have 3: "resolve_interface_method example_VM k_Sink ''accept'' ''(LT;)V'' k_Sub True
      = Some (THROW java_lang_LinkageError)"
    by blast
  from interface_fact interface_no_check
  have 4: "resolve_interface_method
      (example_VM\<lparr>loader_type := (\<lambda>loader type_name. None)\<rparr>) k_Sink ''accept''
      ''(LT;)V'' k_Sub False = Some (Inr Sink_accept)"
    by simp
  from 1 2 3 4 show ?thesis by simp
qed

subsection \<open>The search order of method resolution\<close>

text \<open>
  \<open>MethodHandle\<close> declares \<open>invokeExact\<close> with the descriptor asked for, and the search of
  the class and its superclasses finds it. The method is signature polymorphic, so
  \<open>lookup_method_in_klasses\<close> does not link to it; the interfaces have no such method, and
  the signature-polymorphic lookup, called without a place for the appendix, finds
  nothing. The result is \<open>NoSuchMethodError\<close>, although step (a) had an exact match.
\<close>

theorem resolve_method_signature_polymorphic_counterexample:
  "\<not> is_interface example_VM k_MethodHandle
   \<and> uncached_lookup_method example_VM k_MethodHandle ''invokeExact''
       ''([Ljava/lang/Object;)Ljava/lang/Object;'' = Some MethodHandle_invokeExact
   \<and> name MethodHandle_invokeExact = ''invokeExact''
   \<and> signature MethodHandle_invokeExact = ''([Ljava/lang/Object;)Ljava/lang/Object;''
   \<and> method_holder MethodHandle_invokeExact = k_MethodHandle
   \<and> resolve_method example_VM example_init_state None k_MethodHandle ''invokeExact''
       ''([Ljava/lang/Object;)Ljava/lang/Object;'' k_Sub True
     = THROW_CAUSE java_lang_NoSuchMethodError None"
  by (simp add: resolve_method_def lookup_method_in_klasses_def
      lookup_method_in_interfaces_def lookup_polymorphic_method_def example_lookup_def
      example_VM_def example_klasses example_methods)

text \<open>
  Claim C3, amended. For a class that is not an interface, \<open>resolve_method\<close> searches in
  this order and stops at the first success.
  (a) The class and its superclasses, by exact name and descriptor, static methods
  included (\<open>uncached_lookup_method\<close>); but for a class that is not an array class, with
  \<open>EnableInvokeDynamic\<close>, a match that is signature polymorphic is not linked to, and
  the step leaves the method handle as the caller passed it (empty, so the step fails).
  (b) Only if (a) fails and the class is not an array class, the interfaces.
  (c) Only if (b) fails as well, the signature-polymorphic lookup.
  If all three fail the result is \<open>NoSuchMethodError\<close>, with the exception of step (c),
  if any, as its cause; for an array class it is \<open>NoSuchMethodError\<close> as soon as (a)
  fails, with neither (b) nor (c). The method found is then checked: the equations give
  the result without access checking, and \<open>resolve_method_checked\<close> adds the access and
  loader constraint checks.
\<close>

theorem resolve_method_search_order:
  assumes "\<not> is_interface vm k"
  shows "lookup_method_in_klasses vm rm k method_name sig =
           (case uncached_lookup_method vm k method_name sig of
              None \<Rightarrow> None
            | Some m \<Rightarrow>
                if \<not> oop_is_array vm k \<and> EnableInvokeDynamic vm
                   \<and> is_signature_polymorphic vm (intrinsic_id m)
                then rm else Some m)
         \<and> (\<forall>m. lookup_method_in_klasses vm rm k method_name sig = Some m \<longrightarrow>
               resolve_method vm init_state rm k method_name sig current_klass False
               = (if is_abstract (access_flags m) \<and> \<not> klass_is_abstract vm k
                  then THROW java_lang_AbstractMethodError else Inr m))
         \<and> (\<forall>m. lookup_method_in_klasses vm rm k method_name sig = None
               \<and> \<not> oop_is_array vm k
               \<and> lookup_method_in_interfaces vm k method_name sig = Some m \<longrightarrow>
               resolve_method vm init_state rm k method_name sig current_klass False
               = (if is_abstract (access_flags m) \<and> \<not> klass_is_abstract vm k
                  then THROW java_lang_AbstractMethodError else Inr m))
         \<and> (\<forall>pending found appendix method_type.
               lookup_method_in_klasses vm rm k method_name sig = None
               \<and> \<not> oop_is_array vm k
               \<and> lookup_method_in_interfaces vm k method_name sig = None
               \<and> lookup_polymorphic_method vm init_state None k method_name sig
                   current_klass None None = (pending, found, appendix, method_type) \<longrightarrow>
               (found = None \<longrightarrow>
                  resolve_method vm init_state rm k method_name sig current_klass
                    check_access
                  = THROW_CAUSE java_lang_NoSuchMethodError pending)
               \<and> (\<forall>m. found = Some m \<longrightarrow>
                     resolve_method vm init_state rm k method_name sig current_klass False
                     = (if is_abstract (access_flags m) \<and> \<not> klass_is_abstract vm k
                        then THROW java_lang_AbstractMethodError else Inr m)))
         \<and> (lookup_method_in_klasses vm rm k method_name sig = None \<and> oop_is_array vm k \<longrightarrow>
               resolve_method vm init_state rm k method_name sig current_klass check_access
               = THROW_CAUSE java_lang_NoSuchMethodError None)"
  using assms
  by (auto simp: resolve_method_def lookup_method_in_klasses_def Let_def
      split: option.splits prod.splits)


text \<open>
  On the small machine, from \<open>Sub\<close>: \<open>area()D\<close> on \<open>Circle\<close> is found in the class; on
  \<open>AbstractShape\<close>, which declares nothing, it is found in the interface \<open>Shape\<close>; on the
  array class \<open>int[]\<close> the search ends after the classes.
\<close>

theorem resolve_method_search_order_witness:
  "resolve_method example_VM example_init_state None k_Circle ''area'' ''()D'' k_Sub False
     = Inr Circle_area
   \<and> resolve_method example_VM example_init_state None k_AbstractShape ''area'' ''()D''
       k_Sub False
     = Inr Shape_area
   \<and> resolve_method example_VM example_init_state None k_IntArray ''area'' ''()D'' k_Sub
       False
     = THROW_CAUSE java_lang_NoSuchMethodError None"
proof -
  have classes: "\<not> is_interface example_VM k_Circle"
    "\<not> is_interface example_VM k_AbstractShape" "\<not> is_interface example_VM k_IntArray"
    by (simp_all add: example_VM_def example_klasses)
  note facts =
    resolve_method_search_order [OF classes(1), of None "''area''" "''()D''"
      example_init_state k_Sub False]
    resolve_method_search_order [OF classes(2), of None "''area''" "''()D''"
      example_init_state k_Sub False]
    resolve_method_search_order [OF classes(3), of None "''area''" "''()D''"
      example_init_state k_Sub False]
  have a: "lookup_method_in_klasses example_VM None k_Circle ''area'' ''()D''
      = Some Circle_area"
    and not_a: "lookup_method_in_klasses example_VM None k_AbstractShape ''area'' ''()D''
      = None"
    and b: "lookup_method_in_interfaces example_VM k_AbstractShape ''area'' ''()D''
      = Some Shape_area"
    and not_a_array: "lookup_method_in_klasses example_VM None k_IntArray ''area'' ''()D''
      = None"
    by (simp_all add: lookup_method_in_klasses_def lookup_method_in_interfaces_def
        example_lookup_def example_VM_def example_klasses example_methods)
  have kinds: "\<not> oop_is_array example_VM k_AbstractShape" "oop_is_array example_VM k_IntArray"
    "klass_is_abstract example_VM k_AbstractShape"
    "\<not> is_abstract (access_flags Circle_area)"
    by (simp_all add: example_VM_def example_klasses example_methods flag_tests)
  from facts(1) a kinds
  have 1: "resolve_method example_VM example_init_state None k_Circle ''area'' ''()D'' k_Sub
      False = Inr Circle_area"
    by simp
  from facts(2) not_a b kinds
  have 2: "resolve_method example_VM example_init_state None k_AbstractShape ''area''
      ''()D'' k_Sub False = Inr Shape_area"
    by simp
  from facts(3) not_a_array kinds
  have 3: "resolve_method example_VM example_init_state None k_IntArray ''area'' ''()D''
      k_Sub False = THROW_CAUSE java_lang_NoSuchMethodError None"
    by simp
  from 1 2 3 show ?thesis by simp
qed

subsection \<open>Field resolution\<close>

text \<open>
  A \<open>putfield\<close> of \<open>Sub\<close> on the static final field \<open>LIMIT\<close>, which \<open>Base\<close> declares: the
  field is found, it is final, its declaring class is not the referring class, and the
  access check succeeds. The result is \<open>IncompatibleClassChangeError\<close>, from the test of
  static against instance access that precedes the test of final fields; it is not the
  access error \<open>IllegalAccessError\<close>.
\<close>

theorem resolve_field_put_final_counterexample:
  "find_field example_VM k_Sub (name_ref_at example_pool 1) (signature_ref_at example_pool 1)
     = Some (k_Base, Base_LIMIT)
   \<and> is_final (fd_access_flags Base_LIMIT)
   \<and> k_Base \<noteq> pool_holder example_pool
   \<and> check_field_accessability example_VM (pool_holder example_pool) k_Sub k_Base Base_LIMIT
       = Inr ()
   \<and> resolve_field example_VM example_init_state example_FieldAccessInfo example_pool 1
       Bytecodes_putfield False True
     = THROW java_lang_IncompatibleClassChangeError
   \<and> resolve_field example_VM example_init_state example_FieldAccessInfo example_pool 1
       Bytecodes_putfield False True
     \<noteq> THROW java_lang_IllegalAccessError"
  by (simp add: resolve_field_def resolve_klass_def check_field_accessability_def THROW_def
      exception_names flag_tests Base_LIMIT_def example_pool_def example_VM_def
      example_klasses)

text \<open>
  Claim C10, amended. Let a field resolution find its field, and let the field be
  final and declared by a class other than the referring class (the holder of the
  constant pool). For \<open>putfield\<close> and \<open>putstatic\<close>: if the instruction and the field agree
  on static or instance access, the result is \<open>IllegalAccessError\<close>, whether the ordinary
  access check succeeds or not; if they disagree and the ordinary access check
  succeeds, the result is \<open>IncompatibleClassChangeError\<close>. For \<open>getfield\<close> and
  \<open>getstatic\<close> that pass the access check and agree with the field on static access,
  finality plays no part: the result is that of the initialization of the declaring
  class (for a static access that is not check-only) and of the loader constraint
  check.
\<close>

theorem resolve_field_final_put:
  assumes klass:
      "(if update_pool then resolve_klass pool index else resolve_klass_no_update pool index)
         = Inr (Some k)"
    and field:
      "find_field vm k (name_ref_at pool index) (signature_ref_at pool index)
         = Some (sel_klass, fd)"
    and final: "is_final (fd_access_flags fd)"
    and elsewhere: "sel_klass \<noteq> pool_holder pool"
  shows "((byte = Bytecodes_putfield \<or> byte = Bytecodes_putstatic)
            \<and> (byte = Bytecodes_putstatic) = is_static (fd_access_flags fd) \<longrightarrow>
          resolve_field vm init_state result pool index byte check_only update_pool
          = THROW java_lang_IllegalAccessError)
         \<and> ((byte = Bytecodes_putfield \<or> byte = Bytecodes_putstatic)
            \<and> (byte = Bytecodes_putstatic) \<noteq> is_static (fd_access_flags fd)
            \<and> check_field_accessability vm (pool_holder pool) k sel_klass fd = Inr () \<longrightarrow>
          resolve_field vm init_state result pool index byte check_only update_pool
          = THROW java_lang_IncompatibleClassChangeError)
         \<and> ((byte = Bytecodes_getfield \<or> byte = Bytecodes_getstatic)
            \<and> (byte = Bytecodes_getstatic) = is_static (fd_access_flags fd)
            \<and> check_field_accessability vm (pool_holder pool) k sel_klass fd = Inr () \<longrightarrow>
          resolve_field vm init_state result pool index byte check_only update_pool
          = (case (if byte = Bytecodes_getstatic \<and> \<not> check_only
                   then initialize vm sel_klass init_state
                   else Inr init_state) of
               Inl e \<Rightarrow> Inl (Pending e)
             | Inr init_state' \<Rightarrow>
                 (case check_field_loader_constraints vm (pool_holder pool) sel_klass
                         (name_ref_at pool index) (signature_ref_at pool index) of
                    Inl e \<Rightarrow> Inl e
                  | Inr u \<Rightarrow>
                      Inr (FieldAccessInfo_set result (fd_field_holder fd) (fd_name fd)
                             (fd_index fd) (fd_offset fd) (fd_field_type fd)
                             (fd_access_flags fd),
                           init_state'))))"
  using klass field final elsewhere
  by (auto simp: resolve_field_def check_field_accessability_def THROW_def Let_def
      split: if_splits sum.splits)

text \<open>
  On the small machine, \<open>Sub\<close> on the final instance field \<open>radius\<close>, which \<open>Circle\<close>
  declares: \<open>putfield\<close> fails, \<open>getfield\<close> succeeds.
\<close>

theorem resolve_field_final_put_witness:
  "resolve_field example_VM example_init_state example_FieldAccessInfo example_pool 2
       Bytecodes_putfield False True
     = THROW java_lang_IllegalAccessError
   \<and> resolve_field example_VM example_init_state example_FieldAccessInfo example_pool 2
       Bytecodes_getfield False True
     = Inr (\<lparr>fa_klass = k_Circle, fa_name = ''radius'', fa_field_index = 0,
             fa_field_offset = 16, fa_field_type = 7, fa_access_flags = 0x0011\<rparr>,
            example_init_state)"
proof -
  have klass: "(if True then resolve_klass example_pool 2
                else resolve_klass_no_update example_pool 2) = Inr (Some k_Sub)"
    by (simp add: resolve_klass_def example_pool_def)
  have field: "find_field example_VM k_Sub (name_ref_at example_pool 2)
      (signature_ref_at example_pool 2) = Some (k_Circle, Circle_radius)"
    by (simp add: example_pool_def example_VM_def example_klasses)
  have final: "is_final (fd_access_flags Circle_radius)"
    and instance_field: "\<not> is_static (fd_access_flags Circle_radius)"
    by (simp_all add: Circle_radius_def flag_tests)
  have elsewhere: "k_Circle \<noteq> pool_holder example_pool"
    by (simp add: example_pool_def example_klasses)
  have access: "check_field_accessability example_VM (pool_holder example_pool) k_Sub
      k_Circle Circle_radius = Inr ()"
    by (simp add: check_field_accessability_def Circle_radius_def flag_tests
        example_VM_def)
  note facts =
    resolve_field_final_put [OF klass field final elsewhere, of Bytecodes_putfield
      example_init_state example_FieldAccessInfo False]
    resolve_field_final_put [OF klass field final elsewhere, of Bytecodes_getfield
      example_init_state example_FieldAccessInfo False]
  from facts(1) instance_field
  have 1: "resolve_field example_VM example_init_state example_FieldAccessInfo example_pool
      2 Bytecodes_putfield False True = THROW java_lang_IllegalAccessError"
    by simp
  from facts(2) instance_field access
  have 2: "resolve_field example_VM example_init_state example_FieldAccessInfo example_pool
      2 Bytecodes_getfield False True
     = Inr (\<lparr>fa_klass = k_Circle, fa_name = ''radius'', fa_field_index = 0,
             fa_field_offset = 16, fa_field_type = 7, fa_access_flags = 0x0011\<rparr>,
            example_init_state)"
    by (simp add: check_field_loader_constraints_def check_signature_loaders_def
        different_types_def
        FieldAccessInfo_set_def example_FieldAccessInfo_def Circle_radius_def
        example_pool_def example_VM_def example_klasses)
  from 1 2 show ?thesis by simp
qed

subsection \<open>Static calls\<close>

lemma resolve_method_interface:
  "is_interface vm resolved_klass' \<Longrightarrow>
     resolve_method vm init_state rm resolved_klass' method_name method_signature
       current_klass check_access = THROW java_lang_IncompatibleClassChangeError"
  by (simp add: resolve_method_def)

text \<open>
  Claim C5. \<open>resolve_static_call\<close> ends with \<open>IncompatibleClassChangeError\<close> when the
  class of the symbolic reference is an interface, and also when method resolution
  succeeds with a method that is not static. When it succeeds, the class it reports is
  the holder of the (static) method that resolution found, and if initialization was
  requested and that class should be initialized, \<open>initialize\<close> has been run on it and
  has returned normally: the resulting states are those \<open>initialize\<close> returned, and it
  is in these states that the call information is set up. Otherwise the states are
  unchanged.
\<close>

theorem resolve_static_call_linkage:
  "(is_interface vm resolved_klass' \<longrightarrow>
      resolve_static_call vm init_state result resolved_klass' method_name method_signature
        current_klass check_access initialize_class
      = THROW java_lang_IncompatibleClassChangeError)
   \<and> (\<forall>m. resolve_method vm init_state None resolved_klass' method_name method_signature
             current_klass check_access = Inr m
           \<and> \<not> is_static (access_flags m) \<longrightarrow>
      resolve_static_call vm init_state result resolved_klass' method_name method_signature
        current_klass check_access initialize_class
      = THROW java_lang_IncompatibleClassChangeError)
   \<and> (\<forall>info holder init_state'.
         resolve_static_call vm init_state result resolved_klass' method_name
           method_signature current_klass check_access initialize_class
         = Inr (info, holder, init_state') \<longrightarrow>
         (\<exists>m. resolve_method vm init_state None resolved_klass' method_name
                 method_signature current_klass check_access = Inr m
              \<and> is_static (access_flags m) \<and> holder = method_holder m)
         \<and> resolved_klass info = holder
         \<and> (if initialize_class \<and> should_be_initialized vm init_state holder
             then initialize vm holder init_state = Inr init_state'
             else init_state' = init_state)
         \<and> (\<exists>m'. set_static vm init_state' result holder m' = Inr info))"
  by (auto simp: resolve_static_call_def linktime_resolve_static_method_def
      resolve_method_interface THROW_def Let_def set_static_def
      split: sum.splits if_splits dest: set_common_fields)

lemma example_resolve_area:
  "resolve_method example_VM st rm k_Circle ''area'' ''()D'' k_Sub True = Inr Circle_area"
  by (simp add: resolve_method_def lookup_method_in_klasses_def
      check_method_accessability_def check_method_loader_constraints_def
      check_signature_loaders_def different_types_def clone_name_def example_lookup_def flag_tests
      example_VM_def example_klasses example_methods)

text \<open>
  On the small machine, from \<open>Sub\<close>: a static call to the interface \<open>Shape\<close> and one to
  the instance method \<open>Circle.area\<close> fail; the call to \<open>Circle.count\<close> finds \<open>Base.count\<close>
  and initializes \<open>Base\<close>, which was linked only.
\<close>

theorem resolve_static_call_linkage_witness:
  "resolve_static_call example_VM example_init_state example_CallInfo k_Shape ''area''
       ''()D'' k_Sub True True = THROW java_lang_IncompatibleClassChangeError
   \<and> resolve_static_call example_VM example_init_state example_CallInfo k_Circle ''area''
       ''()D'' k_Sub True True = THROW java_lang_IncompatibleClassChangeError
   \<and> resolve_static_call example_VM example_init_state example_CallInfo k_Circle ''count''
       ''()I'' k_Sub True True =
     Inr (example_CallInfo\<lparr>resolved_klass := k_Base, selected_klass := k_Base,
            resolved_method := Base_count, selected_method := Base_count,
            ci_vtable_index := - 2\<rparr>,
          k_Base, example_init_state(k_Base := fully_initialized))
   \<and> should_be_initialized example_VM example_init_state k_Base
   \<and> initialize example_VM k_Base example_init_state =
       Inr (example_init_state(k_Base := fully_initialized))"
proof -
  have interface: "is_interface example_VM k_Shape"
    by (simp add: example_VM_def)
  have instance_method: "\<not> is_static (access_flags Circle_area)"
    by (simp add: Circle_area_def flag_tests)
  have run: "resolve_static_call example_VM example_init_state example_CallInfo k_Circle
        ''count'' ''()I'' k_Sub True True =
      Inr (example_CallInfo\<lparr>resolved_klass := k_Base, selected_klass := k_Base,
             resolved_method := Base_count, selected_method := Base_count,
             ci_vtable_index := - 2\<rparr>,
           k_Base, example_init_state(k_Base := fully_initialized))"
    by (simp add: resolve_static_call_def linktime_resolve_static_method_def
        resolve_method_def lookup_method_in_klasses_def
        check_method_accessability_def check_method_loader_constraints_def
        check_signature_loaders_def different_types_def clone_name_def example_lookup_def
        set_static_def set_common_def
        example_CallInfo_def example_init_state_def flag_tests example_VM_def
        example_klasses example_methods)
  note facts = resolve_static_call_linkage [of example_VM k_Shape example_init_state
      example_CallInfo "''area''" "''()D''" k_Sub True True]
    resolve_static_call_linkage [of example_VM k_Circle example_init_state
      example_CallInfo "''area''" "''()D''" k_Sub True True]
    resolve_static_call_linkage [of example_VM k_Circle example_init_state
      example_CallInfo "''count''" "''()I''" k_Sub True True]
  from facts(1) interface
  have 1: "resolve_static_call example_VM example_init_state example_CallInfo k_Shape
      ''area'' ''()D'' k_Sub True True = THROW java_lang_IncompatibleClassChangeError"
    by blast
  from facts(2) example_resolve_area instance_method
  have 2: "resolve_static_call example_VM example_init_state example_CallInfo k_Circle
      ''area'' ''()D'' k_Sub True True = THROW java_lang_IncompatibleClassChangeError"
    by blast
  from facts(3) run
  have 3: "if True \<and> should_be_initialized example_VM example_init_state k_Base
           then initialize example_VM k_Base example_init_state
                = Inr (example_init_state(k_Base := fully_initialized))
           else example_init_state(k_Base := fully_initialized) = example_init_state"
    by blast
  have 4: "should_be_initialized example_VM example_init_state k_Base"
    by (simp add: example_VM_def example_init_state_def example_klasses)
  from 1 2 3 4 run show ?thesis by simp
qed

subsection \<open>Special calls\<close>

text \<open>
  \<open>Sub\<close> carries the super marker, \<open>Base\<close>, the holder of the resolved method \<open>Base.area\<close>,
  is a strict superclass of \<open>Sub\<close>, and \<open>area\<close> is not a constructor. A lookup from
  \<open>Circle\<close>, the immediate superclass of \<open>Sub\<close>, finds \<open>Circle.area\<close>. Without access
  checking, the selected method is nevertheless the resolved method \<open>Base.area\<close>: the
  lookup from the superclass is made only when access checking is requested.
\<close>

theorem runtime_resolve_special_method_counterexample:
  "is_super example_VM k_Sub
   \<and> is_subtype_of example_VM k_Sub (method_holder Base_area)
   \<and> k_Sub \<noteq> method_holder Base_area
   \<and> name Base_area \<noteq> object_initializer_name
   \<and> super example_VM k_Sub = Some k_Circle
   \<and> lookup_instance_method_in_klasses example_VM k_Circle (name Base_area)
       (signature Base_area) = Some (Inr (Some Circle_area))
   \<and> runtime_resolve_special_method example_VM example_init_state example_CallInfo
       Base_area k_Base k_Sub False
     = Some (Inr (example_CallInfo\<lparr>resolved_klass := k_Base, selected_klass := k_Base,
                    resolved_method := Base_area, selected_method := Base_area,
                    ci_vtable_index := - 2\<rparr>))
   \<and> Base_area \<noteq> Circle_area"
  by (simp add: runtime_resolve_special_method_def lookup_instance_method_in_klasses_def
      lookup_instance_method_loop.simps set_static_def set_common_def
      object_initializer_name_def example_lookup_def example_CallInfo_def flag_tests
      example_VM_def example_klasses example_methods)

text \<open>
  Claim C6, amended. In \<open>runtime_resolve_special_method\<close>, when access checking is
  requested, the caller class carries the super marker (or \<open>AllowNonVirtualCalls\<close> is
  off), the holder of the resolved method is a strict supertype of the caller class, and
  the method is not a constructor, the selected method is looked up again from the
  immediate superclass of the caller class; in every other case it is the resolved
  method. If the lookup finds nothing, the result is \<open>AbstractMethodError\<close>. If it finds
  a method other than the resolved one, the loader constraints of that method are
  checked first: when the loader of the caller class and the loader of the holder of
  that method have different types for a type name of its descriptor, the result is
  \<open>LinkageError\<close>. Then, if the selected method is static, the result is
  \<open>IncompatibleClassChangeError\<close>; otherwise, if it is abstract, \<open>AbstractMethodError\<close>;
  otherwise the call information holds the selected method.
\<close>

theorem runtime_resolve_special_method_selection:
  "(check_access \<and> (is_super vm current_klass \<or> \<not> AllowNonVirtualCalls vm)
      \<and> is_subtype_of vm current_klass (method_holder resolved_method')
      \<and> current_klass \<noteq> method_holder resolved_method'
      \<and> name resolved_method' \<noteq> object_initializer_name \<longrightarrow>
      (\<forall>super_klass.
         super vm current_klass = Some super_klass \<longrightarrow>
         (lookup_instance_method_in_klasses vm super_klass (name resolved_method')
            (signature resolved_method') = Some (Inr None) \<longrightarrow>
          runtime_resolve_special_method vm init_state result resolved_method'
            resolved_klass' current_klass check_access
          = Some (THROW java_lang_AbstractMethodError))
         \<and> (\<forall>sel_method.
               lookup_instance_method_in_klasses vm super_klass (name resolved_method')
                 (signature resolved_method') = Some (Inr (Some sel_method))
               \<longrightarrow>
               runtime_resolve_special_method vm init_state result resolved_method'
                 resolved_klass' current_klass check_access
               = Some (if sel_method \<noteq> resolved_method'
                          \<and> (\<exists>type_name \<in> set (signature_type_names vm
                                                  (signature sel_method) True).
                                different_types vm (class_loader vm current_klass)
                                  (class_loader vm (method_holder sel_method)) type_name)
                       then THROW java_lang_LinkageError
                       else if is_static (access_flags sel_method)
                       then THROW java_lang_IncompatibleClassChangeError
                       else if is_abstract (access_flags sel_method)
                       then THROW java_lang_AbstractMethodError
                       else set_static vm init_state result resolved_klass' sel_method))))
   \<and> (\<not> (check_access \<and> (is_super vm current_klass \<or> \<not> AllowNonVirtualCalls vm)
          \<and> is_subtype_of vm current_klass (method_holder resolved_method')
          \<and> current_klass \<noteq> method_holder resolved_method'
          \<and> name resolved_method' \<noteq> object_initializer_name) \<longrightarrow>
        runtime_resolve_special_method vm init_state result resolved_method'
          resolved_klass' current_klass check_access
        = Some (if is_static (access_flags resolved_method')
                then THROW java_lang_IncompatibleClassChangeError
                else if is_abstract (access_flags resolved_method')
                then THROW java_lang_AbstractMethodError
                else set_static vm init_state result resolved_klass' resolved_method'))
   \<and> (\<forall>info.
        runtime_resolve_special_method vm init_state result resolved_method'
          resolved_klass' current_klass check_access = Some (Inr info) \<longrightarrow>
        \<not> is_static (access_flags (selected_method info))
        \<and> \<not> is_abstract (access_flags (selected_method info))
        \<and> resolved_method info = selected_method info)"
proof (intro conjI allI impI)
  fix super_klass
  assume "check_access \<and> (is_super vm current_klass \<or> \<not> AllowNonVirtualCalls vm)
      \<and> is_subtype_of vm current_klass (method_holder resolved_method')
      \<and> current_klass \<noteq> method_holder resolved_method'
      \<and> name resolved_method' \<noteq> object_initializer_name"
    and "super vm current_klass = Some super_klass"
    and "lookup_instance_method_in_klasses vm super_klass (name resolved_method')
           (signature resolved_method') = Some (Inr None)"
  then show "runtime_resolve_special_method vm init_state result resolved_method'
      resolved_klass' current_klass check_access
    = Some (THROW java_lang_AbstractMethodError)"
    by (simp add: runtime_resolve_special_method_def Let_def THROW_def)
next
  fix super_klass sel_method
  assume "check_access \<and> (is_super vm current_klass \<or> \<not> AllowNonVirtualCalls vm)
      \<and> is_subtype_of vm current_klass (method_holder resolved_method')
      \<and> current_klass \<noteq> method_holder resolved_method'
      \<and> name resolved_method' \<noteq> object_initializer_name"
    and "super vm current_klass = Some super_klass"
    and "lookup_instance_method_in_klasses vm super_klass (name resolved_method')
           (signature resolved_method') = Some (Inr (Some sel_method))"
  then show "runtime_resolve_special_method vm init_state result resolved_method'
      resolved_klass' current_klass check_access
    = Some (if sel_method \<noteq> resolved_method'
               \<and> (\<exists>type_name \<in> set (signature_type_names vm (signature sel_method) True).
                     different_types vm (class_loader vm current_klass)
                       (class_loader vm (method_holder sel_method)) type_name)
            then THROW java_lang_LinkageError
            else if is_static (access_flags sel_method)
            then THROW java_lang_IncompatibleClassChangeError
            else if is_abstract (access_flags sel_method)
            then THROW java_lang_AbstractMethodError
            else set_static vm init_state result resolved_klass' sel_method)"
    by (simp add: runtime_resolve_special_method_def check_method_loader_constraints_result
        Let_def THROW_def)
next
  assume "\<not> (check_access \<and> (is_super vm current_klass \<or> \<not> AllowNonVirtualCalls vm)
          \<and> is_subtype_of vm current_klass (method_holder resolved_method')
          \<and> current_klass \<noteq> method_holder resolved_method'
          \<and> name resolved_method' \<noteq> object_initializer_name)"
  then show "runtime_resolve_special_method vm init_state result resolved_method'
      resolved_klass' current_klass check_access
    = Some (if is_static (access_flags resolved_method')
            then THROW java_lang_IncompatibleClassChangeError
            else if is_abstract (access_flags resolved_method')
            then THROW java_lang_AbstractMethodError
            else set_static vm init_state result resolved_klass' resolved_method')"
    by (auto simp: runtime_resolve_special_method_def Let_def THROW_def)
next
  fix info
  assume success: "runtime_resolve_special_method vm init_state result resolved_method'
      resolved_klass' current_klass check_access = Some (Inr info)"
  then show "\<not> is_static (access_flags (selected_method info))"
    by (auto simp: runtime_resolve_special_method_def Let_def THROW_def set_static_def
        split: option.splits sum.splits if_splits dest: set_common_fields)
  from success show "\<not> is_abstract (access_flags (selected_method info))"
    by (auto simp: runtime_resolve_special_method_def Let_def THROW_def set_static_def
        split: option.splits sum.splits if_splits dest: set_common_fields)
  from success show "resolved_method info = selected_method info"
    by (auto simp: runtime_resolve_special_method_def Let_def THROW_def set_static_def
        split: option.splits sum.splits if_splits dest: set_common_fields)
qed

text \<open>
  On the small machine, with access checking, the call of \<open>Sub\<close> to \<open>Base.area\<close> selects
  \<open>Circle.area\<close>, found from the superclass \<open>Circle\<close> of \<open>Sub\<close>. The call of \<open>PluginUser\<close>
  (loader 1) to \<open>Plugin.take(LT;)V\<close> finds \<open>PluginMid.take\<close> from the superclass
  \<open>PluginMid\<close> (loader 2); the two loaders have different classes for \<open>T\<close>, and the result
  is \<open>LinkageError\<close>.
\<close>

theorem runtime_resolve_special_method_selection_witness:
  "runtime_resolve_special_method example_VM example_init_state example_CallInfo Base_area
       k_Base k_Sub True
     = Some (Inr (example_CallInfo\<lparr>resolved_klass := k_Base, selected_klass := k_Base,
                    resolved_method := Circle_area, selected_method := Circle_area,
                    ci_vtable_index := - 2\<rparr>))
   \<and> lookup_instance_method_in_klasses example_VM k_PluginMid (name Plugin_take)
       (signature Plugin_take) = Some (Inr (Some PluginMid_take))
   \<and> PluginMid_take \<noteq> Plugin_take
   \<and> different_types example_VM (class_loader example_VM k_PluginUser)
       (class_loader example_VM (method_holder PluginMid_take)) ''T''
   \<and> runtime_resolve_special_method example_VM example_init_state example_CallInfo
       Plugin_take k_Plugin k_PluginUser True
     = Some (THROW java_lang_LinkageError)"
proof -
  have super_call: "True \<and> (is_super example_VM k_Sub \<or> \<not> AllowNonVirtualCalls example_VM)
      \<and> is_subtype_of example_VM k_Sub (method_holder Base_area)
      \<and> k_Sub \<noteq> method_holder Base_area
      \<and> name Base_area \<noteq> object_initializer_name"
    by (simp add: object_initializer_name_def example_VM_def example_klasses
        example_methods)
  have superclass: "super example_VM k_Sub = Some k_Circle"
    by (simp add: example_VM_def example_klasses)
  have found: "lookup_instance_method_in_klasses example_VM k_Circle (name Base_area)
      (signature Base_area) = Some (Inr (Some Circle_area))"
    by (simp add: lookup_instance_method_in_klasses_def lookup_instance_method_loop.simps
        example_lookup_def flag_tests example_VM_def example_klasses example_methods)
  have constraints: "\<not> (\<exists>type_name \<in> set (signature_type_names example_VM
        (signature Circle_area) True).
      different_types example_VM (class_loader example_VM k_Sub)
        (class_loader example_VM (method_holder Circle_area)) type_name)"
    by (simp add: example_VM_def example_methods)
  have flags: "\<not> is_static (access_flags Circle_area)"
    "\<not> is_abstract (access_flags Circle_area)"
    by (simp_all add: flag_tests example_methods)
  have info: "set_static example_VM example_init_state example_CallInfo k_Base Circle_area
      = Inr (example_CallInfo\<lparr>resolved_klass := k_Base, selected_klass := k_Base,
               resolved_method := Circle_area, selected_method := Circle_area,
               ci_vtable_index := - 2\<rparr>)"
    by (simp add: set_static_def set_common_def example_CallInfo_def example_VM_def)
  from runtime_resolve_special_method_selection [of True example_VM k_Sub Base_area
      example_init_state example_CallInfo k_Base]
    super_call superclass found
  have "runtime_resolve_special_method example_VM example_init_state example_CallInfo
      Base_area k_Base k_Sub True
    = Some (if Circle_area \<noteq> Base_area
               \<and> (\<exists>type_name \<in> set (signature_type_names example_VM
                                       (signature Circle_area) True).
                     different_types example_VM (class_loader example_VM k_Sub)
                       (class_loader example_VM (method_holder Circle_area)) type_name)
            then THROW java_lang_LinkageError
            else if is_static (access_flags Circle_area)
            then THROW java_lang_IncompatibleClassChangeError
            else if is_abstract (access_flags Circle_area)
            then THROW java_lang_AbstractMethodError
            else set_static example_VM example_init_state example_CallInfo k_Base
                   Circle_area)"
    by blast
  with constraints flags info
  have selected: "runtime_resolve_special_method example_VM example_init_state
      example_CallInfo Base_area k_Base k_Sub True
    = Some (Inr (example_CallInfo\<lparr>resolved_klass := k_Base, selected_klass := k_Base,
                   resolved_method := Circle_area, selected_method := Circle_area,
                   ci_vtable_index := - 2\<rparr>))"
    by simp
  have plugin_call: "True
      \<and> (is_super example_VM k_PluginUser \<or> \<not> AllowNonVirtualCalls example_VM)
      \<and> is_subtype_of example_VM k_PluginUser (method_holder Plugin_take)
      \<and> k_PluginUser \<noteq> method_holder Plugin_take
      \<and> name Plugin_take \<noteq> object_initializer_name"
    by (simp add: object_initializer_name_def example_VM_def example_klasses
        example_methods)
  have plugin_superclass: "super example_VM k_PluginUser = Some k_PluginMid"
    by (simp add: example_VM_def example_klasses)
  have plugin_found: "lookup_instance_method_in_klasses example_VM k_PluginMid
      (name Plugin_take) (signature Plugin_take) = Some (Inr (Some PluginMid_take))"
    by (simp add: lookup_instance_method_in_klasses_def lookup_instance_method_loop.simps
        example_lookup_def flag_tests example_VM_def example_klasses example_methods)
  have other: "PluginMid_take \<noteq> Plugin_take"
    by (simp add: example_klasses example_methods)
  have type_names: "signature_type_names example_VM (signature PluginMid_take) True
      = [''T'']"
    by (simp add: example_VM_def example_methods)
  have different: "different_types example_VM (class_loader example_VM k_PluginUser)
      (class_loader example_VM (method_holder PluginMid_take)) ''T''"
    by (simp add: different_types_def example_VM_def example_klasses example_methods)
  from runtime_resolve_special_method_selection [of True example_VM k_PluginUser
      Plugin_take example_init_state example_CallInfo k_Plugin]
    plugin_call plugin_superclass plugin_found
  have "runtime_resolve_special_method example_VM example_init_state example_CallInfo
      Plugin_take k_Plugin k_PluginUser True
    = Some (if PluginMid_take \<noteq> Plugin_take
               \<and> (\<exists>type_name \<in> set (signature_type_names example_VM
                                       (signature PluginMid_take) True).
                     different_types example_VM (class_loader example_VM k_PluginUser)
                       (class_loader example_VM (method_holder PluginMid_take)) type_name)
            then THROW java_lang_LinkageError
            else if is_static (access_flags PluginMid_take)
            then THROW java_lang_IncompatibleClassChangeError
            else if is_abstract (access_flags PluginMid_take)
            then THROW java_lang_AbstractMethodError
            else set_static example_VM example_init_state example_CallInfo k_Plugin
                   PluginMid_take)"
    by blast
  with other type_names different
  have refused: "runtime_resolve_special_method example_VM example_init_state
      example_CallInfo Plugin_take k_Plugin k_PluginUser True
    = Some (THROW java_lang_LinkageError)"
    by simp
  from selected plugin_found other different refused show ?thesis by simp
qed

subsection \<open>Virtual calls\<close>

text \<open>
  Claim C2. Whenever \<open>runtime_resolve_virtual_method\<close> succeeds, the call information
  holds the resolved method, and: if the holder of the resolved method is an interface,
  the selected method is the entry of the receiver class's vtable at the index that
  the search \<open>index_of_miranda\<close> of the resolved class returns for the name and the
  descriptor of the resolved method; otherwise, if the resolved method has a
  non-negative vtable index, it is the entry of the receiver class's vtable at that
  index; and if the resolved method has no vtable index (the negative sentinel
  \<open>nonvirtual_vtable_index\<close>), it is the resolved method itself. In each case the call
  information records the index used. The vtable is read as the machine holds it
  (\<open>vtable\<close>), and the search is the machine's (\<open>index_of_miranda\<close>).
\<close>

theorem runtime_resolve_virtual_method_selection:
  assumes success:
      "runtime_resolve_virtual_method vm init_state result resolved_method' resolved_klass'
         recv recv_klass check_null_and_abstract = Inr info"
    and sentinel: "nonvirtual_vtable_index vm < 0"
  shows "resolved_method info = resolved_method'
         \<and> (is_interface vm (method_holder resolved_method') \<longrightarrow>
            vtable vm recv_klass
              (index_of_miranda vm resolved_klass' (name resolved_method')
                 (signature resolved_method'))
            = Some (selected_method info)
            \<and> ci_vtable_index info
              = index_of_miranda vm resolved_klass' (name resolved_method')
                  (signature resolved_method'))
         \<and> (\<not> is_interface vm (method_holder resolved_method')
              \<and> 0 \<le> vtable_index resolved_method' \<longrightarrow>
            vtable vm recv_klass (vtable_index resolved_method')
            = Some (selected_method info)
            \<and> ci_vtable_index info = vtable_index resolved_method')
         \<and> (\<not> is_interface vm (method_holder resolved_method')
              \<and> vtable_index resolved_method' = nonvirtual_vtable_index vm \<longrightarrow>
            selected_method info = resolved_method'
            \<and> ci_vtable_index info = nonvirtual_vtable_index vm)"
  using success sentinel
  by (auto simp: runtime_resolve_virtual_method_def set_virtual_def method_at_vtable_def
      vtable_index_of_miranda_method_def Let_def THROW_def
      split: if_splits option.splits dest: set_common_fields)

text \<open>
  On the small machine, for a receiver at hand: \<open>Base.area\<close> has vtable index 3, and
  a call on a \<open>Circle\<close> receiver selects \<open>Circle.area\<close>, the entry 3 of the vtable of
  \<open>Circle\<close>; the interface method \<open>Shape.area\<close>, resolved in \<open>AbstractShape\<close>, is found
  by the search of \<open>AbstractShape\<close> in the miranda slot 5, and a call on a \<open>Disk\<close>
  receiver selects \<open>Disk.area\<close>, the entry 5 of the vtable of \<open>Disk\<close>; the final method
  \<open>Base.id\<close> has no vtable index and is selected itself.
\<close>

theorem runtime_resolve_virtual_method_selection_witness:
  "runtime_resolve_virtual_method example_VM example_init_state example_CallInfo
       Base_area k_Base (Some 100) k_Circle True =
     Inr (example_CallInfo\<lparr>resolved_klass := k_Base, selected_klass := k_Circle,
            resolved_method := Base_area, selected_method := Circle_area,
            ci_vtable_index := 3\<rparr>)
   \<and> vtable example_VM k_Circle (vtable_index Base_area) = Some Circle_area
   \<and> runtime_resolve_virtual_method example_VM example_init_state example_CallInfo
       Shape_area k_AbstractShape (Some 100) k_Disk True =
     Inr (example_CallInfo\<lparr>resolved_klass := k_AbstractShape, selected_klass := k_Disk,
            resolved_method := Shape_area, selected_method := Disk_area,
            ci_vtable_index := 5\<rparr>)
   \<and> index_of_miranda example_VM k_AbstractShape ''area'' ''()D'' = 5
   \<and> vtable example_VM k_Disk (index_of_miranda example_VM k_AbstractShape ''area'' ''()D'')
     = Some Disk_area
   \<and> runtime_resolve_virtual_method example_VM example_init_state example_CallInfo
       Base_id k_Base (Some 100) k_Circle True =
     Inr (example_CallInfo\<lparr>resolved_klass := k_Base, selected_klass := k_Circle,
            resolved_method := Base_id, selected_method := Base_id,
            ci_vtable_index := - 2\<rparr>)"
proof -
  have by_index: "runtime_resolve_virtual_method example_VM example_init_state
        example_CallInfo Base_area k_Base (Some 100) k_Circle True =
      Inr (example_CallInfo\<lparr>resolved_klass := k_Base, selected_klass := k_Circle,
             resolved_method := Base_area, selected_method := Circle_area,
             ci_vtable_index := 3\<rparr>)"
    and miranda: "runtime_resolve_virtual_method example_VM example_init_state
        example_CallInfo Shape_area k_AbstractShape (Some 100) k_Disk True =
      Inr (example_CallInfo\<lparr>resolved_klass := k_AbstractShape, selected_klass := k_Disk,
             resolved_method := Shape_area, selected_method := Disk_area,
             ci_vtable_index := 5\<rparr>)"
    and no_index: "runtime_resolve_virtual_method example_VM example_init_state
        example_CallInfo Base_id k_Base (Some 100) k_Circle True =
      Inr (example_CallInfo\<lparr>resolved_klass := k_Base, selected_klass := k_Circle,
             resolved_method := Base_id, selected_method := Base_id,
             ci_vtable_index := - 2\<rparr>)"
    by (simp_all add: runtime_resolve_virtual_method_def set_virtual_def set_common_def
        method_at_vtable_def vtable_index_of_miranda_method_def example_vtable_def
        example_CallInfo_def flag_tests example_VM_def example_klasses example_methods)
  have sentinel: "nonvirtual_vtable_index example_VM < 0"
    by (simp add: example_VM_def)
  have kinds: "\<not> is_interface example_VM (method_holder Base_area)"
    "0 \<le> vtable_index Base_area"
    "is_interface example_VM (method_holder Shape_area)"
    "name Shape_area = ''area''" "signature Shape_area = ''()D''"
    by (simp_all add: example_VM_def example_klasses example_methods)
  from runtime_resolve_virtual_method_selection [OF by_index sentinel] kinds
  have 1: "vtable example_VM k_Circle (vtable_index Base_area) = Some Circle_area"
    by auto
  from runtime_resolve_virtual_method_selection [OF miranda sentinel] kinds
  have 2: "vtable example_VM k_Disk
      (index_of_miranda example_VM k_AbstractShape ''area'' ''()D'') = Some Disk_area"
    and 3: "index_of_miranda example_VM k_AbstractShape ''area'' ''()D'' = 5"
    by auto
  from by_index 1 miranda 2 3 no_index show ?thesis by simp
qed

subsection \<open>Interface calls\<close>

text \<open>
  Claim C4. In \<open>runtime_resolve_interface_method\<close>, with a receiver at hand (the handle
  is not null, or the null check is not requested): if the receiver class is not a
  subtype of the resolved interface, the result is \<open>IncompatibleClassChangeError\<close>, and
  so not \<open>NoSuchMethodError\<close>, whatever the lookup in the receiver's classes would
  find; if it is a subtype and that lookup selects a method that is not public, the
  result is \<open>IllegalAccessError\<close>. Every successful result has a receiver class that
  implements the interface and a public selected method, the one the lookup found.
\<close>

theorem runtime_resolve_interface_method_checks:
  assumes receiver: "\<not> (check_null_and_abstract \<and> recv = None)"
  shows "(\<not> is_subtype_of vm recv_klass resolved_klass' \<longrightarrow>
            runtime_resolve_interface_method vm init_state result resolved_method'
              resolved_klass' recv recv_klass check_null_and_abstract
            = Some (THROW java_lang_IncompatibleClassChangeError)
            \<and> runtime_resolve_interface_method vm init_state result resolved_method'
                resolved_klass' recv recv_klass check_null_and_abstract
              \<noteq> Some (THROW java_lang_NoSuchMethodError))
         \<and> (\<forall>sel_method.
               is_subtype_of vm recv_klass resolved_klass'
               \<and> lookup_instance_method_in_klasses vm recv_klass (name resolved_method')
                   (signature resolved_method') = Some (Inr (Some sel_method))
               \<and> \<not> is_public (access_flags sel_method) \<longrightarrow>
               runtime_resolve_interface_method vm init_state result resolved_method'
                 resolved_klass' recv recv_klass check_null_and_abstract
               = Some (THROW java_lang_IllegalAccessError))
         \<and> (\<forall>info.
               runtime_resolve_interface_method vm init_state result resolved_method'
                 resolved_klass' recv recv_klass check_null_and_abstract
               = Some (Inr info) \<longrightarrow>
               is_subtype_of vm recv_klass resolved_klass'
               \<and> lookup_instance_method_in_klasses vm recv_klass (name resolved_method')
                   (signature resolved_method') = Some (Inr (Some (selected_method info)))
               \<and> is_public (access_flags (selected_method info)))"
  using receiver
  by (auto simp: runtime_resolve_interface_method_def set_interface_def THROW_def Let_def
      exception_names
      split: if_splits option.splits sum.splits dest: set_common_fields)

lemma example_lookup_instance_area:
  "lookup_instance_method_in_klasses example_VM k_Square ''area'' ''()D'' =
     Some (Inr (Some Square_area))"
  "lookup_instance_method_in_klasses example_VM k_Disk ''area'' ''()D'' =
     Some (Inr (Some Disk_area))"
  by (simp_all add: lookup_instance_method_in_klasses_def lookup_instance_method_loop.simps
      example_lookup_def flag_tests example_VM_def example_klasses example_methods)

text \<open>
  On the small machine, for the interface method \<open>Shape.area\<close>: a \<open>Circle\<close> receiver does
  not implement \<open>Shape\<close>; a \<open>Square\<close> receiver does, but its \<open>area\<close> is protected; a \<open>Disk\<close>
  receiver is served by \<open>Disk.area\<close>.
\<close>

theorem runtime_resolve_interface_method_checks_witness:
  "runtime_resolve_interface_method example_VM example_init_state example_CallInfo
       Shape_area k_Shape (Some 100) k_Circle True =
     Some (THROW java_lang_IncompatibleClassChangeError)
   \<and> runtime_resolve_interface_method example_VM example_init_state example_CallInfo
       Shape_area k_Shape (Some 100) k_Square True =
     Some (THROW java_lang_IllegalAccessError)
   \<and> runtime_resolve_interface_method example_VM example_init_state example_CallInfo
       Shape_area k_Shape (Some 100) k_Disk True =
     Some (Inr (example_CallInfo\<lparr>resolved_klass := k_Shape, selected_klass := k_Disk,
                  resolved_method := Shape_area, selected_method := Disk_area,
                  ci_vtable_index := - 4\<rparr>))
   \<and> is_public (access_flags Disk_area)"
proof -
  have receiver: "\<not> (True \<and> Some (100::nat) = None)"
    by simp
  have unrelated: "\<not> is_subtype_of example_VM k_Circle k_Shape"
    and implements: "is_subtype_of example_VM k_Square k_Shape"
    by (simp_all add: example_VM_def example_klasses)
  have selected: "lookup_instance_method_in_klasses example_VM k_Square (name Shape_area)
      (signature Shape_area) = Some (Inr (Some Square_area))"
    using example_lookup_instance_area(1) by (simp add: Shape_area_def)
  have protected: "\<not> is_public (access_flags Square_area)"
    by (simp add: Square_area_def flag_tests)
  have run: "runtime_resolve_interface_method example_VM example_init_state
        example_CallInfo Shape_area k_Shape (Some 100) k_Disk True =
      Some (Inr (example_CallInfo\<lparr>resolved_klass := k_Shape, selected_klass := k_Disk,
                   resolved_method := Shape_area, selected_method := Disk_area,
                   ci_vtable_index := - 4\<rparr>))"
    by (simp add: runtime_resolve_interface_method_def lookup_instance_method_in_klasses_def
        lookup_instance_method_loop.simps set_interface_def set_common_def
        example_lookup_def example_CallInfo_def flag_tests example_VM_def example_klasses
        example_methods)
  note facts =
    runtime_resolve_interface_method_checks [OF receiver, of example_VM k_Circle k_Shape
      example_init_state example_CallInfo Shape_area]
    runtime_resolve_interface_method_checks [OF receiver, of example_VM k_Square k_Shape
      example_init_state example_CallInfo Shape_area]
    runtime_resolve_interface_method_checks [OF receiver, of example_VM k_Disk k_Shape
      example_init_state example_CallInfo Shape_area]
  from facts(1) unrelated
  have 1: "runtime_resolve_interface_method example_VM example_init_state example_CallInfo
      Shape_area k_Shape (Some 100) k_Circle True =
      Some (THROW java_lang_IncompatibleClassChangeError)"
    by blast
  from facts(2) implements selected protected
  have 2: "runtime_resolve_interface_method example_VM example_init_state example_CallInfo
      Shape_area k_Shape (Some 100) k_Square True = Some (THROW java_lang_IllegalAccessError)"
    by blast
  from facts(3) run
  have 3: "is_public (access_flags Disk_area)"
    by fastforce
  from 1 2 3 run show ?thesis by simp
qed

subsection \<open>Dynamically computed call sites\<close>

text \<open>
  Claim C7. When the bootstrap collaborator \<open>find_dynamic_call_site_invoker\<close> returns an
  error \<open>e\<close>, \<open>resolve_dynamic_call\<close> ends with \<open>e\<close> itself if \<open>e\<close> is a
  \<open>BootstrapMethodError\<close>; otherwise, if \<open>e\<close> is a \<open>LinkageError\<close>, with a new
  \<open>BootstrapMethodError\<close> whose cause is \<open>e\<close>; and with \<open>e\<close> itself in every other case.
\<close>

theorem resolve_dynamic_call_error_translation:
  assumes "find_dynamic_call_site_invoker vm current_klass bootstrap_specifier method_name
             method_signature = Inl e"
  shows "resolve_dynamic_call vm init_state result bootstrap_specifier method_name
           method_signature current_klass =
         (if is_a vm e (BootstrapMethodError_klass vm) then Inl (Pending e)
          else if is_a vm e (LinkageError_klass vm)
          then Inl (Pending (Throwable java_lang_BootstrapMethodError (Some e)))
          else Inl (Pending e))"
  using assms by (simp add: resolve_dynamic_call_def THROW_CAUSE_def)

text \<open>
  On the small machine: the bootstrap specifier 1 fails with a \<open>NoClassDefFoundError\<close>
  (a linkage error), which is wrapped; 2 fails with a \<open>BootstrapMethodError\<close> and 3 with
  an \<open>IllegalStateException\<close>, which both pass unchanged.
\<close>

theorem resolve_dynamic_call_error_translation_witness:
  "resolve_dynamic_call example_VM example_init_state example_CallInfo (Some 1) ''run''
       ''()V'' k_Sub =
     Inl (Pending (Throwable ''java/lang/BootstrapMethodError''
            (Some (Throwable ''java/lang/NoClassDefFoundError'' None))))
   \<and> resolve_dynamic_call example_VM example_init_state example_CallInfo (Some 2) ''run''
       ''()V'' k_Sub =
     Inl (Pending (Throwable ''java/lang/BootstrapMethodError'' None))
   \<and> resolve_dynamic_call example_VM example_init_state example_CallInfo (Some 3) ''run''
       ''()V'' k_Sub =
     Inl (Pending (Throwable ''java/lang/IllegalStateException'' None))"
proof -
  have 1: "find_dynamic_call_site_invoker example_VM k_Sub (Some 1) ''run'' ''()V'' =
             Inl (Throwable ''java/lang/NoClassDefFoundError'' None)"
    and 2: "find_dynamic_call_site_invoker example_VM k_Sub (Some 2) ''run'' ''()V'' =
             Inl (Throwable ''java/lang/BootstrapMethodError'' None)"
    and 3: "find_dynamic_call_site_invoker example_VM k_Sub (Some 3) ''run'' ''()V'' =
             Inl (Throwable ''java/lang/IllegalStateException'' None)"
    by (simp_all add: example_VM_def)
  show ?thesis
    using resolve_dynamic_call_error_translation [OF 1, of example_init_state example_CallInfo]
      resolve_dynamic_call_error_translation [OF 2, of example_init_state example_CallInfo]
      resolve_dynamic_call_error_translation [OF 3, of example_init_state example_CallInfo]
    by (simp add: example_VM_def example_klasses exception_names)
qed

subsection \<open>Resolved and selected descriptors\<close>

lemma lookup_instance_method_loop_descriptor:
  assumes returns: "lookup_instance_method_loop vm name_and_signature result = Some y"
  shows "lookup_returns_descriptor vm \<longrightarrow>
         (\<forall>m'. result = Some m' \<longrightarrow> signature m' = snd name_and_signature) \<longrightarrow>
         (\<forall>m. y = Inr (Some m) \<longrightarrow> signature m = snd name_and_signature)"
proof (rule lookup_instance_method_loop.raw_induct
    [where P = "\<lambda>vm name_and_signature result y.
       lookup_returns_descriptor vm \<longrightarrow>
       (\<forall>m'. result = Some m' \<longrightarrow> signature m' = snd name_and_signature) \<longrightarrow>
       (\<forall>m. y = Inr (Some m) \<longrightarrow> signature m = snd name_and_signature)",
     OF _ returns])
  fix loop :: "VM \<Rightarrow> symbol \<times> symbol \<Rightarrow> methodHandle \<Rightarrow> (vm_error + methodHandle) option"
    and vm name_and_signature result y
  assume IH: "\<And>vm name_and_signature result y.
      loop vm name_and_signature result = Some y \<Longrightarrow>
      lookup_returns_descriptor vm \<longrightarrow>
      (\<forall>m'. result = Some m' \<longrightarrow> signature m' = snd name_and_signature) \<longrightarrow>
      (\<forall>m. y = Inr (Some m) \<longrightarrow> signature m = snd name_and_signature)"
    and step: "(case result of
        None \<Rightarrow> Some (Inr None)
      | Some m \<Rightarrow>
          if is_static (access_flags m) then
            (case super vm (method_holder m) of
               None \<Rightarrow> Some (Inl Crash)
             | Some super_klass \<Rightarrow>
                 loop vm name_and_signature
                   (uncached_lookup_method vm super_klass (fst name_and_signature)
                      (snd name_and_signature)))
          else Some (Inr (Some m))) = Some y"
  show "lookup_returns_descriptor vm \<longrightarrow>
      (\<forall>m'. result = Some m' \<longrightarrow> signature m' = snd name_and_signature) \<longrightarrow>
      (\<forall>m. y = Inr (Some m) \<longrightarrow> signature m = snd name_and_signature)"
  proof (intro impI allI)
    fix m
    assume contract: "lookup_returns_descriptor vm"
      and start: "\<forall>m'. result = Some m' \<longrightarrow> signature m' = snd name_and_signature"
      and found: "y = Inr (Some m)"
    show "signature m = snd name_and_signature"
    proof (cases result)
      case None
      with step found show ?thesis by simp
    next
      case (Some first)
      show ?thesis
      proof (cases "is_static (access_flags first)")
        case False
        with Some step start found show ?thesis by simp
      next
        case True
        with Some step found obtain super_klass where
          again: "loop vm name_and_signature
              (uncached_lookup_method vm super_klass (fst name_and_signature)
                 (snd name_and_signature)) = Some y"
          by (auto split: option.splits)
        have "\<forall>m'. uncached_lookup_method vm super_klass (fst name_and_signature)
                (snd name_and_signature) = Some m' \<longrightarrow>
              signature m' = snd name_and_signature"
          using contract by (simp add: lookup_returns_descriptor_def)
        with IH [OF again] contract found show ?thesis by blast
      qed
    qed
  qed
qed

lemma lookup_instance_method_in_klasses_descriptor:
  assumes "lookup_instance_method_in_klasses vm k method_name sig = Some (Inr (Some m))"
    and "lookup_returns_descriptor vm"
  shows "signature m = sig"
proof -
  have "\<forall>m'. uncached_lookup_method vm k method_name sig = Some m' \<longrightarrow>
          signature m' = snd (method_name, sig)"
    using assms(2) by (simp add: lookup_returns_descriptor_def)
  with lookup_instance_method_loop_descriptor
    [OF assms(1) [unfolded lookup_instance_method_in_klasses_def]] assms(2)
  show ?thesis by simp
qed

lemma set_static_same:
  "set_static vm init_state result k m = Inr info \<Longrightarrow>
     resolved_method info = m \<and> selected_method info = m"
  by (auto simp: set_static_def dest: set_common_fields)

lemma set_handle_same:
  "set_handle vm init_state result m appendix method_type = Inr info \<Longrightarrow>
     resolved_method info = selected_method info"
  by (auto simp: set_handle_def THROW_def Let_def split: option.splits sum.splits
      dest: set_common_fields)

lemma runtime_resolve_special_method_same:
  "runtime_resolve_special_method vm init_state result rm k current_klass check_access
     = Some (Inr info) \<Longrightarrow>
   resolved_method info = selected_method info"
  by (auto simp: runtime_resolve_special_method_def Let_def THROW_def
      split: option.splits sum.splits if_splits dest: set_static_same)

lemma runtime_resolve_interface_method_descriptor:
  assumes "runtime_resolve_interface_method vm init_state result rm k recv recv_klass
             check_null_and_abstract = Some (Inr info)"
    and "lookup_returns_descriptor vm"
  shows "signature (resolved_method info) = signature (selected_method info)"
proof -
  from assms(1) obtain sel_method where
    found: "lookup_instance_method_in_klasses vm recv_klass (name rm) (signature rm)
              = Some (Inr (Some sel_method))"
    and info: "set_interface vm init_state result k recv_klass rm sel_method = Inr info"
    by (auto simp: runtime_resolve_interface_method_def THROW_def
        split: option.splits sum.splits if_splits)
  from info have "resolved_method info = rm" "selected_method info = sel_method"
    by (auto simp: set_interface_def dest: set_common_fields)
  with lookup_instance_method_in_klasses_descriptor [OF found assms(2)]
  show ?thesis by simp
qed

lemma runtime_resolve_virtual_method_descriptor:
  assumes "runtime_resolve_virtual_method vm init_state result rm k recv recv_klass
             check_null_and_abstract = Inr info"
    and layout: "vtable_layout vm"
    and call: "virtual_call_well_formed vm rm k recv_klass"
  shows "signature (resolved_method info) = signature (selected_method info)"
proof -
  from assms(1) obtain index' sel_method where
    selected:
      "(if is_interface vm (method_holder rm) then
          (index_of_miranda vm k (name rm) (signature rm),
           vtable vm recv_klass (index_of_miranda vm k (name rm) (signature rm)))
        else if vtable_index rm = nonvirtual_vtable_index vm
        then (vtable_index rm, Some rm)
        else (vtable_index rm, vtable vm recv_klass (vtable_index rm)))
       = (index', Some sel_method)"
    and info: "set_virtual vm init_state result k recv_klass rm sel_method index' = Inr info"
    by (auto simp: runtime_resolve_virtual_method_def method_at_vtable_def
        vtable_index_of_miranda_method_def THROW_def Let_def
        split: option.splits if_splits prod.splits)
  from info have fields: "resolved_method info = rm" "selected_method info = sel_method"
    by (auto simp: set_virtual_def dest: set_common_fields)
  have "signature sel_method = signature rm"
  proof (cases "is_interface vm (method_holder rm)")
    case True
    with call obtain miranda where
      "is_subtype_of vm recv_klass k"
      "vtable vm k (index_of_miranda vm k (name rm) (signature rm)) = Some miranda"
      "signature miranda = signature rm"
      by (auto simp: virtual_call_well_formed_def)
    moreover from True selected
    have "vtable vm recv_klass (index_of_miranda vm k (name rm) (signature rm))
            = Some sel_method"
      by auto
    ultimately show ?thesis
      using layout unfolding vtable_layout_def by metis
  next
    case False
    show ?thesis
    proof (cases "vtable_index rm = nonvirtual_vtable_index vm")
      case True
      with False selected show ?thesis by simp
    next
      case no_sentinel: False
      with False call have
        "is_subtype_of vm recv_klass (method_holder rm)"
        "vtable vm (method_holder rm) (vtable_index rm) = Some rm"
        by (auto simp: virtual_call_well_formed_def)
      moreover from False no_sentinel selected
      have "vtable vm recv_klass (vtable_index rm) = Some sel_method"
        by auto
      ultimately show ?thesis
        using layout unfolding vtable_layout_def by metis
    qed
  qed
  with fields show ?thesis by simp
qed

text \<open>
  Where the descriptors agree. Let the class-hierarchy search return methods of the
  descriptor asked for, and let vtables be laid out as \<open>vtable_layout\<close> says. Then the
  descriptor of the resolved method equals the descriptor of the selected method in
  every call information constructed by \<open>set_static\<close> and \<open>set_handle\<close> themselves, by
  static, special, interface, handle and dynamic calls, and by a virtual call that is
  well formed (\<open>virtual_call_well_formed\<close>).
\<close>

theorem CallInfo_descriptors_correspond:
  assumes lookup: "lookup_returns_descriptor vm"
    and layout: "vtable_layout vm"
  shows "(\<forall>info. set_static vm init_state result k m = Inr info \<longrightarrow>
            signature (resolved_method info) = signature (selected_method info))
         \<and> (\<forall>info. set_handle vm init_state result handle_method appendix method_type
                     = Inr info \<longrightarrow>
            signature (resolved_method info) = signature (selected_method info))
         \<and> (\<forall>info holder init_state'.
              resolve_static_call vm init_state result k method_name sig current_klass
                check_access initialize_class = Inr (info, holder, init_state') \<longrightarrow>
            signature (resolved_method info) = signature (selected_method info))
         \<and> (\<forall>info. runtime_resolve_special_method vm init_state result rm k current_klass
                     check_access = Some (Inr info) \<longrightarrow>
            signature (resolved_method info) = signature (selected_method info))
         \<and> (\<forall>info. resolve_special_call vm init_state result k method_name sig
                     current_klass check_access = Some (Inr info) \<longrightarrow>
            signature (resolved_method info) = signature (selected_method info))
         \<and> (\<forall>info. runtime_resolve_interface_method vm init_state result rm k recv
                     recv_klass check_null_and_abstract = Some (Inr info) \<longrightarrow>
            signature (resolved_method info) = signature (selected_method info))
         \<and> (\<forall>info. resolve_interface_call vm init_state result recv recv_klass k
                     method_name sig current_klass check_access check_null_and_abstract
                     = Some (Inr info) \<longrightarrow>
            signature (resolved_method info) = signature (selected_method info))
         \<and> (\<forall>info. virtual_call_well_formed vm rm k recv_klass
                   \<and> runtime_resolve_virtual_method vm init_state result rm k recv
                       recv_klass check_null_and_abstract = Inr info \<longrightarrow>
            signature (resolved_method info) = signature (selected_method info))
         \<and> (\<forall>info. (\<forall>rm'. linktime_resolve_virtual_method vm init_state None k method_name
                            sig current_klass check_access = Inr rm' \<longrightarrow>
                          virtual_call_well_formed vm rm' k recv_klass)
                   \<and> resolve_virtual_call vm init_state result recv recv_klass k
                       method_name sig current_klass check_access check_null_and_abstract
                     = Inr info \<longrightarrow>
            signature (resolved_method info) = signature (selected_method info))
         \<and> (\<forall>info. resolve_handle_call vm init_state result k method_name sig
                     current_klass check_access = Inr info \<longrightarrow>
            signature (resolved_method info) = signature (selected_method info))
         \<and> (\<forall>info. resolve_dynamic_call vm init_state result bootstrap_specifier
                     method_name sig current_klass = Inr info \<longrightarrow>
            signature (resolved_method info) = signature (selected_method info))"
proof (intro conjI allI impI)
  fix info
  assume "set_static vm init_state result k m = Inr info"
  then show "signature (resolved_method info) = signature (selected_method info)"
    by (auto dest: set_static_same)
next
  fix info
  assume "set_handle vm init_state result handle_method appendix method_type = Inr info"
  then show "signature (resolved_method info) = signature (selected_method info)"
    by (auto dest: set_handle_same)
next
  fix info holder init_state'
  assume "resolve_static_call vm init_state result k method_name sig current_klass
            check_access initialize_class = Inr (info, holder, init_state')"
  then show "signature (resolved_method info) = signature (selected_method info)"
    by (auto simp: resolve_static_call_def Let_def split: sum.splits if_splits
        dest: set_static_same)
next
  fix info
  assume "runtime_resolve_special_method vm init_state result rm k current_klass
            check_access = Some (Inr info)"
  then show "signature (resolved_method info) = signature (selected_method info)"
    by (auto dest: runtime_resolve_special_method_same)
next
  fix info
  assume "resolve_special_call vm init_state result k method_name sig current_klass
            check_access = Some (Inr info)"
  then show "signature (resolved_method info) = signature (selected_method info)"
    by (auto simp: resolve_special_call_def split: sum.splits
        dest: runtime_resolve_special_method_same)
next
  fix info
  assume "runtime_resolve_interface_method vm init_state result rm k recv recv_klass
            check_null_and_abstract = Some (Inr info)"
  then show "signature (resolved_method info) = signature (selected_method info)"
    using lookup by (rule runtime_resolve_interface_method_descriptor)
next
  fix info
  assume "resolve_interface_call vm init_state result recv recv_klass k method_name sig
            current_klass check_access check_null_and_abstract = Some (Inr info)"
  then show "signature (resolved_method info) = signature (selected_method info)"
    using lookup
    by (auto simp: resolve_interface_call_def split: option.splits sum.splits
        dest: runtime_resolve_interface_method_descriptor)
next
  fix info
  assume "virtual_call_well_formed vm rm k recv_klass
      \<and> runtime_resolve_virtual_method vm init_state result rm k recv recv_klass
          check_null_and_abstract = Inr info"
  then show "signature (resolved_method info) = signature (selected_method info)"
    using layout by (blast intro: runtime_resolve_virtual_method_descriptor)
next
  fix info
  assume "(\<forall>rm'. linktime_resolve_virtual_method vm init_state None k method_name sig
                   current_klass check_access = Inr rm' \<longrightarrow>
                 virtual_call_well_formed vm rm' k recv_klass)
      \<and> resolve_virtual_call vm init_state result recv recv_klass k method_name sig
          current_klass check_access check_null_and_abstract = Inr info"
  then show "signature (resolved_method info) = signature (selected_method info)"
    using layout
    by (auto simp: resolve_virtual_call_def split: sum.splits
        intro: runtime_resolve_virtual_method_descriptor)
next
  fix info
  assume "resolve_handle_call vm init_state result k method_name sig current_klass
            check_access = Inr info"
  then show "signature (resolved_method info) = signature (selected_method info)"
    by (auto simp: resolve_handle_call_def Let_def
        split: prod.splits option.splits sum.splits if_splits dest: set_handle_same)
next
  fix info
  assume "resolve_dynamic_call vm init_state result bootstrap_specifier method_name sig
            current_klass = Inr info"
  then show "signature (resolved_method info) = signature (selected_method info)"
    by (auto simp: resolve_dynamic_call_def THROW_CAUSE_def
        split: prod.splits sum.splits if_splits dest: set_handle_same)
qed

lemma example_lookup_signature:
  "example_lookup k n s = Some m \<Longrightarrow> signature m = s"
  unfolding example_lookup_def
  by (auto simp: example_methods split: if_splits)

lemma example_lookup_returns_descriptor: "lookup_returns_descriptor example_VM"
proof -
  have "uncached_lookup_method example_VM = example_lookup"
    by (simp add: example_VM_def)
  then show ?thesis
    unfolding lookup_returns_descriptor_def
    by (simp add: example_lookup_signature)
qed

lemma example_vtable_signature:
  "example_vtable k i = Some m \<Longrightarrow>
     signature m =
       (if i = 0 then ''()Ljava/lang/Object;''
        else if k = k_Plugin \<or> k = k_PluginMid \<or> k = k_PluginUser then ''(LT;)V''
        else ''()D'')"
  unfolding example_vtable_def
  by (auto simp: example_methods example_klasses split: if_splits)

lemma example_vtable_Object:
  "example_vtable k_Object i = Some m \<Longrightarrow> i = 0"
  unfolding example_vtable_def
  by (auto simp: example_klasses split: if_splits)

lemma example_subtypes:
  assumes "is_subtype_of example_VM k k'"
  shows "k' = k_Object
         \<or> ((k = k_Plugin \<or> k = k_PluginMid \<or> k = k_PluginUser)
             \<longleftrightarrow> (k' = k_Plugin \<or> k' = k_PluginMid \<or> k' = k_PluginUser))"
proof -
  have "is_subtype_of example_VM =
      (\<lambda>k k'. k = k' \<or> k' = k_Object
         \<or> (k, k') \<in> set [(k_Circle, k_Base), (k_Sub, k_Circle), (k_Sub, k_Base),
                  (k_Square, k_Shape), (k_AbstractShape, k_Shape),
                  (k_Disk, k_AbstractShape), (k_Disk, k_Shape),
                  (k_PluginMid, k_Plugin), (k_PluginUser, k_PluginMid),
                  (k_PluginUser, k_Plugin),
                  (k_BootstrapMethodError, k_LinkageError)])"
    by (simp add: example_VM_def)
  with assms show ?thesis
    by (auto simp: example_klasses)
qed

lemma example_vtable_layout: "vtable_layout example_VM"
proof -
  have entries: "vtable example_VM = example_vtable"
    by (simp add: example_VM_def)
  show ?thesis
    unfolding vtable_layout_def entries
  proof (intro allI impI)
    fix k k' i m m'
    assume slots: "is_subtype_of example_VM k k' \<and> example_vtable k' i = Some m
      \<and> example_vtable k i = Some m'"
    then have super_slot: "example_vtable k' i = Some m"
      and own_slot: "example_vtable k i = Some m'"
      and subtype: "is_subtype_of example_VM k k'"
      by blast+
    from subtype have "k' = k_Object
         \<or> ((k = k_Plugin \<or> k = k_PluginMid \<or> k = k_PluginUser)
             \<longleftrightarrow> (k' = k_Plugin \<or> k' = k_PluginMid \<or> k' = k_PluginUser))"
      by (rule example_subtypes)
    then show "signature m' = signature m"
    proof
      assume "k' = k_Object"
      with super_slot have "i = 0"
        by (blast intro: example_vtable_Object)
      with example_vtable_signature [OF super_slot] example_vtable_signature [OF own_slot]
      show ?thesis by simp
    next
      assume "(k = k_Plugin \<or> k = k_PluginMid \<or> k = k_PluginUser)
             \<longleftrightarrow> (k' = k_Plugin \<or> k' = k_PluginMid \<or> k' = k_PluginUser)"
      with example_vtable_signature [OF super_slot] example_vtable_signature [OF own_slot]
      show ?thesis by simp
    qed
  qed
qed

lemma example_virtual_call_well_formed:
  "virtual_call_well_formed example_VM Base_area k_Base k_Circle"
  by (simp add: virtual_call_well_formed_def example_vtable_def example_VM_def
      example_klasses example_methods)

text \<open>
  The small machine meets the two layout properties, and the virtual call of \<open>Base.area\<close>
  on a \<open>Circle\<close> receiver is well formed. It selects \<open>Circle.area\<close>, of the same
  descriptor \<open>()D\<close>.
\<close>

theorem CallInfo_descriptors_correspond_witness:
  "lookup_returns_descriptor example_VM
   \<and> vtable_layout example_VM
   \<and> virtual_call_well_formed example_VM Base_area k_Base k_Circle
   \<and> runtime_resolve_virtual_method example_VM example_init_state example_CallInfo
       Base_area k_Base (Some 100) k_Circle True =
     Inr (example_CallInfo\<lparr>resolved_klass := k_Base, selected_klass := k_Circle,
            resolved_method := Base_area, selected_method := Circle_area,
            ci_vtable_index := 3\<rparr>)
   \<and> signature Base_area = signature Circle_area"
proof -
  have run: "runtime_resolve_virtual_method example_VM example_init_state example_CallInfo
          Base_area k_Base (Some 100) k_Circle True =
        Inr (example_CallInfo\<lparr>resolved_klass := k_Base, selected_klass := k_Circle,
          resolved_method := Base_area, selected_method := Circle_area,
          ci_vtable_index := 3\<rparr>)"
    by (simp add: runtime_resolve_virtual_method_def set_virtual_def set_common_def
        method_at_vtable_def example_vtable_def example_CallInfo_def flag_tests
        example_VM_def example_klasses example_methods)
  from CallInfo_descriptors_correspond
    [OF example_lookup_returns_descriptor example_vtable_layout,
     of example_init_state example_CallInfo]
    example_virtual_call_well_formed run
  have "signature (resolved_method (example_CallInfo\<lparr>resolved_klass := k_Base,
           selected_klass := k_Circle, resolved_method := Base_area,
           selected_method := Circle_area, ci_vtable_index := 3\<rparr>))
        = signature (selected_method (example_CallInfo\<lparr>resolved_klass := k_Base,
           selected_klass := k_Circle, resolved_method := Base_area,
           selected_method := Circle_area, ci_vtable_index := 3\<rparr>))"
    by blast
  then have "signature Base_area = signature Circle_area"
    by simp
  with example_lookup_returns_descriptor example_vtable_layout
    example_virtual_call_well_formed run
  show ?thesis by simp
qed


end
